theory Spec2Isabelle
  imports Complex_Main "HOL-Library.Multiset" "HOL-Library.Char_ord" "HOL-Library.List_Lexorder"
begin

section \<open>Conventions of the embedding\<close>

text \<open>
  The TypeScript sources are embedded shallowly. A JavaScript string is a \<^typ>\<open>string\<close>
  (a list of 8-bit characters: ASCII text stands for itself, the degree sign of the source is
  its two UTF-8 bytes). A JavaScript number is a \<^typ>\<open>real\<close>; a reading of \<open>Date.now()\<close> is an
  \<^typ>\<open>int\<close> of milliseconds and is passed to every operation that reads the clock: one
  synchronous method call sees one reading. Mutable objects are passed in and returned.
  Calls to the network (geocoding, forecast, weather provider, generative provider) are
  parameters of the functions that make them, and the calls made are returned as a trace.
\<close>

section \<open>The JavaScript Map\<close>

text \<open>
  A \<open>Map<string, V>\<close> keeps its entries in insertion order and holds a key once. It is an
  association list; \<open>set\<close> overwrites in place or appends, \<open>delete\<close> removes the key.
\<close>

type_synonym 'v js_map = "(string \<times> 'v) list"

definition Map_get :: "'v js_map \<Rightarrow> string \<Rightarrow> 'v option" where
  "Map_get m k = map_of m k"

primrec Map_set :: "string \<Rightarrow> 'v \<Rightarrow> 'v js_map \<Rightarrow> 'v js_map" where
  "Map_set k v [] = [(k, v)]"
| "Map_set k v (p # ps) = (if fst p = k then (k, v) # ps else p # Map_set k v ps)"

definition Map_delete :: "string \<Rightarrow> 'v js_map \<Rightarrow> 'v js_map" where
  "Map_delete k m = filter (\<lambda>p. fst p \<noteq> k) m"

definition Map_wf :: "'v js_map \<Rightarrow> bool" where
  "Map_wf m = distinct (map fst m)"

section \<open>services/cacheService.ts\<close>

record 'a CachedItem =
  data :: 'a
  timestamp :: int
  key :: string

text \<open>\<open>isExpired\<close>: \<open>(Date.now() - item.timestamp) > this.cacheDuration\<close>.\<close>

definition isExpired :: "int \<Rightarrow> int \<Rightarrow> 'a CachedItem \<Rightarrow> bool" where
  "isExpired cacheDuration now item = (now - timestamp item > cacheDuration)"


text \<open>\<open>get\<close> and \<open>has\<close> return their result and the cache as they leave it.\<close>

definition cache_get ::
  "int \<Rightarrow> int \<Rightarrow> 'a CachedItem js_map \<Rightarrow> string \<Rightarrow> 'a option \<times> 'a CachedItem js_map" where
  "cache_get cacheDuration now cache k =
     (case Map_get cache k of
        None \<Rightarrow> (None, cache)
      | Some item \<Rightarrow>
          if isExpired cacheDuration now item then (None, Map_delete k cache)
          else (Some (data item), cache))"

definition cache_has ::
  "int \<Rightarrow> int \<Rightarrow> 'a CachedItem js_map \<Rightarrow> string \<Rightarrow> bool \<times> 'a CachedItem js_map" where
  "cache_has cacheDuration now cache k =
     (case Map_get cache k of
        None \<Rightarrow> (False, cache)
      | Some item \<Rightarrow>
          if isExpired cacheDuration now item then (False, Map_delete k cache)
          else (True, cache))"

text \<open>
  \<open>clearExpired\<close> walks \<open>this.cache.entries()\<close> and deletes, by key, each entry it finds
  expired. The first list is what is left to visit, the second the map being changed.
\<close>

fun clearExpired_loop ::
  "int \<Rightarrow> int \<Rightarrow> (string \<times> 'a CachedItem) list \<Rightarrow> 'a CachedItem js_map \<Rightarrow> 'a CachedItem js_map" where
  "clearExpired_loop cacheDuration now [] cache = cache"
| "clearExpired_loop cacheDuration now ((k, item) # entries) cache =
     (if isExpired cacheDuration now item
      then clearExpired_loop cacheDuration now entries (Map_delete k cache)
      else clearExpired_loop cacheDuration now entries cache)"

definition clearExpired :: "int \<Rightarrow> int \<Rightarrow> 'a CachedItem js_map \<Rightarrow> 'a CachedItem js_map" where
  "clearExpired cacheDuration now cache = clearExpired_loop cacheDuration now cache cache"

text \<open>A cache used in the examples: two entries, stored at 0 ms and at 200000 ms.\<close>

definition example_cache :: "nat CachedItem js_map" where
  "example_cache =
     [(''rome'', \<lparr>data = 21, timestamp = 0, key = ''rome''\<rparr>),
      (''oslo'', \<lparr>data = 4, timestamp = 200000, key = ''oslo''\<rparr>)]"

section \<open>JavaScript string built-ins\<close>

text \<open>
  \<open>toLowerCase\<close>, \<open>trim\<close> and \<open>length\<close> are modelled on ASCII strings, where a character is
  one byte and one UTF-16 code unit: the letters A to Z are lowered, and the white space
  removed at both ends is TAB, LF, VT, FF, CR and SPACE, the white space and line
  terminators of JavaScript below U+0080. On a string with a character beyond ASCII the
  built-ins of JavaScript do more (they fold other letters, remove other spaces and count
  code units, not bytes), so what is stated of the length, the trimmed form or the case of
  a string is stated of ASCII strings, \<open>is_ascii\<close>.
\<close>

definition is_ascii :: "string \<Rightarrow> bool" where
  "is_ascii l = (\<forall>c \<in> set l. c \<le> CHR 0x7F)"

definition lower_char :: "char \<Rightarrow> char" where
  "lower_char c =
     (case map_of (zip ''ABCDEFGHIJKLMNOPQRSTUVWXYZ'' ''abcdefghijklmnopqrstuvwxyz'') c of
        Some l \<Rightarrow> l
      | None \<Rightarrow> c)"

definition toLowerCase :: "string \<Rightarrow> string" where
  "toLowerCase s = map lower_char s"

definition isWhiteSpace :: "char \<Rightarrow> bool" where
  "isWhiteSpace c = (c \<in> set [CHR 0x09, CHR 0x0A, CHR 0x0B, CHR 0x0C, CHR 0x0D, CHR 0x20])"

definition trim :: "string \<Rightarrow> string" where
  "trim s = rev (dropWhile isWhiteSpace (rev (dropWhile isWhiteSpace s)))"

section \<open>services/weatherService.ts\<close>

record GeocodeResult =
  latitude :: real
  longitude :: real
  name :: string
  country :: string

record WeatherData =
  temperature :: real
  condition :: string
  humidity :: real
  windSpeed :: real
  icon :: string
  description :: string
  cityName :: string
  country :: string





text \<open>
  The icons, as the UTF-8 bytes of the source's literals: U+2600 U+FE0F, U+26C5,
  U+1F32B U+FE0F, U+1F327 U+FE0F, U+1F328 U+FE0F, U+1F326 U+FE0F, U+26C8 U+FE0F and
  U+1F324 U+FE0F.
\<close>

definition icon_clear :: string where
  "icon_clear = [CHR 0xE2, CHR 0x98, CHR 0x80, CHR 0xEF, CHR 0xB8, CHR 0x8F]"

definition icon_partly_cloudy :: string where
  "icon_partly_cloudy = [CHR 0xE2, CHR 0x9B, CHR 0x85]"

definition icon_fog :: string where
  "icon_fog = [CHR 0xF0, CHR 0x9F, CHR 0x8C, CHR 0xAB, CHR 0xEF, CHR 0xB8, CHR 0x8F]"

definition icon_rain :: string where
  "icon_rain = [CHR 0xF0, CHR 0x9F, CHR 0x8C, CHR 0xA7, CHR 0xEF, CHR 0xB8, CHR 0x8F]"

definition icon_snow :: string where
  "icon_snow = [CHR 0xF0, CHR 0x9F, CHR 0x8C, CHR 0xA8, CHR 0xEF, CHR 0xB8, CHR 0x8F]"

definition icon_rain_showers :: string where
  "icon_rain_showers = [CHR 0xF0, CHR 0x9F, CHR 0x8C, CHR 0xA6, CHR 0xEF, CHR 0xB8, CHR 0x8F]"

definition icon_thunderstorm :: string where
  "icon_thunderstorm = [CHR 0xE2, CHR 0x9B, CHR 0x88, CHR 0xEF, CHR 0xB8, CHR 0x8F]"

definition icon_unknown :: string where
  "icon_unknown = [CHR 0xF0, CHR 0x9F, CHR 0x8C, CHR 0xA4, CHR 0xEF, CHR 0xB8, CHR 0x8F]"

definition getWeatherIcon :: "real \<Rightarrow> string" where
  "getWeatherIcon weatherCode =
     (if weatherCode = 0 then icon_clear
      else if weatherCode \<le> 3 then icon_partly_cloudy
      else if weatherCode \<le> 48 then icon_fog
      else if weatherCode \<le> 67 then icon_rain
      else if weatherCode \<le> 77 then icon_snow
      else if weatherCode \<le> 82 then icon_rain_showers
      else if weatherCode \<le> 99 then icon_thunderstorm
      else icon_unknown)"

definition descriptions :: "(real \<times> string) list" where
  "descriptions =
     [(0, ''Clear sky''),
      (1, ''Mainly clear''),
      (2, ''Partly cloudy''),
      (3, ''Overcast''),
      (45, ''Foggy''),
      (48, ''Depositing rime fog''),
      (51, ''Light drizzle''),
      (53, ''Moderate drizzle''),
      (55, ''Dense drizzle''),
      (61, ''Slight rain''),
      (63, ''Moderate rain''),
      (65, ''Heavy rain''),
      (71, ''Slight snow''),
      (73, ''Moderate snow''),
      (75, ''Heavy snow''),
      (80, ''Slight rain showers''),
      (81, ''Moderate rain showers''),
      (82, ''Violent rain showers''),
      (95, ''Thunderstorm''),
      (96, ''Thunderstorm with hail''),
      (99, ''Thunderstorm with heavy hail'')]"

text \<open>\<open>descriptions[weatherCode] || 'Unknown'\<close>: a missing or empty entry gives \<open>'Unknown'\<close>.\<close>

definition getWeatherDescription :: "real \<Rightarrow> string" where
  "getWeatherDescription weatherCode =
     (case map_of descriptions weatherCode of
        None \<Rightarrow> ''Unknown''
      | Some d \<Rightarrow> if d = [] then ''Unknown'' else d)"









section \<open>controllers/geminiAIController.ts\<close>

text \<open>
  The controller's own \<open>WeatherData\<close>, the weather provider's answer: \<open>main.temp\<close>,
  \<open>main.humidity\<close>, the \<open>description\<close> of each element of \<open>weather\<close>, \<open>wind.speed\<close> and
  \<open>visibility\<close>.
\<close>

record AiWeatherData =
  main_temp :: real
  main_humidity :: real
  weather :: "string list"
  wind_speed :: real
  visibility :: "real option"

text \<open>The values of a request body, which \<open>getCacheKey\<close> serialises.\<close>

datatype json =
  JUndefined
| JNull
| JBool bool
| JNumber real
| JString string
| JArray "json list"
| JObject "(string \<times> json) list"

text \<open>
  What the controller calls and does not define: its two network calls, as their results
  (\<open>getWeatherData\<close> gives \<open>null\<close> on any failure, \<open>callGemini\<close> throws on any failure,
  here \<open>None\<close>), and the built-ins \<open>JSON.stringify\<close>, the conversion of a number in a
  template literal, and \<open>toFixed(1)\<close>.
\<close>

record ai_env =
  getWeatherData :: "string \<Rightarrow> AiWeatherData option"
  callGemini :: "string \<Rightarrow> nat \<Rightarrow> string option"
  JSON_stringify :: "json \<Rightarrow> string"
  Number_toString :: "real \<Rightarrow> string"
  toFixed1 :: "real \<Rightarrow> string"

record CachedResponse =
  ai_data :: string
  ai_timestamp :: int

datatype res_body =
  ErrorJson string
| ChatJson string
| SummaryJson string
| SuggestionsJson string
| TriviaJson string "AiWeatherData option"

record response =
  status :: nat
  body :: res_body

definition CACHE_TTL :: int where
  "CACHE_TTL = 5 * 60 * 1000"

definition getCacheKey :: "ai_env \<Rightarrow> string \<Rightarrow> json \<Rightarrow> string" where
  "getCacheKey env type d = type @ ''-'' @ JSON_stringify env d"

definition getCachedResponse :: "int \<Rightarrow> CachedResponse js_map \<Rightarrow> string \<Rightarrow> string option" where
  "getCachedResponse now aiCache k =
     (case Map_get aiCache k of
        None \<Rightarrow> None
      | Some cached \<Rightarrow> if now - ai_timestamp cached < CACHE_TTL then Some (ai_data cached) else None)"

definition setCachedResponse ::
  "int \<Rightarrow> CachedResponse js_map \<Rightarrow> string \<Rightarrow> string \<Rightarrow> CachedResponse js_map" where
  "setCachedResponse now aiCache k d = Map_set k \<lparr>ai_data = d, ai_timestamp = now\<rparr> aiCache"

text \<open>\<open>if (cachedResponse)\<close>: \<open>null\<close> and the empty string are both falsy.\<close>

definition truthy :: "string option \<Rightarrow> bool" where
  "truthy v = (case v of None \<Rightarrow> False | Some s \<Rightarrow> s \<noteq> [])"

definition degree :: string where
  "degree = [CHR 0xC2, CHR 0xB0]"

definition newline :: string where
  "newline = [CHR 0x0A]"

definition dquote :: string where
  "dquote = [CHR 0x22]"

text \<open>\<open>Array.prototype.join\<close> on strings.\<close>

fun join :: "string \<Rightarrow> string list \<Rightarrow> string" where
  "join sep [] = []"
| "join sep [x] = x"
| "join sep (x # y # ys) = x @ sep @ join sep (y # ys)"

definition json_of_locations :: "string list option \<Rightarrow> json" where
  "json_of_locations ls = (case ls of None \<Rightarrow> JUndefined | Some xs \<Rightarrow> JArray (map JString xs))"

text \<open>
  A handler answers early or goes on to the generative provider with what it has built.
  \<open>res.json\<close> alone answers with status 200. The outer \<open>catch\<close> of each handler turns a
  \<open>TypeError\<close> (reading \<open>weather[0].description\<close> of an empty \<open>weather\<close>) into a 500.
\<close>

definition ok :: "res_body \<Rightarrow> response" where
  "ok b = \<lparr>status = 200, body = b\<rparr>"

definition fail :: "nat \<Rightarrow> string \<Rightarrow> response" where
  "fail code msg = \<lparr>status = code, body = ErrorJson msg\<rparr>"

subsection \<open>POST /api/weather/ai/chat\<close>

text \<open>The callback of \<open>weatherResults.map\<close>; \<open>None\<close> is the \<open>TypeError\<close>.\<close>

definition chat_entry :: "ai_env \<Rightarrow> string \<times> AiWeatherData option \<Rightarrow> string option" where
  "chat_entry env p =
     (case snd p of
        Some d \<Rightarrow>
          (case weather d of
             [] \<Rightarrow> None
           | w # _ \<Rightarrow>
               Some (fst p @ '': '' @ Number_toString env (main_temp d) @ degree @ ''C, '' @ w @
                     '', humidity '' @ Number_toString env (main_humidity d) @ ''%''))
      | None \<Rightarrow> Some (fst p @ '': Weather data unavailable''))"

definition chat_weatherContext :: "ai_env \<Rightarrow> string list option \<Rightarrow> string option" where
  "chat_weatherContext env locations =
     (case locations of
        None \<Rightarrow> Some []
      | Some locs \<Rightarrow>
          if length locs > 0
          then (let weatherResults = map (getWeatherData env) locs
                in map_option (join ''. '') (those (map (chat_entry env) (zip locs weatherResults))))
          else Some [])"

definition chat_prompt :: "string \<Rightarrow> string \<Rightarrow> string" where
  "chat_prompt question weatherContext =
     ''You are a helpful weather assistant. Answer this weather question in a conversational, friendly way: ''
     @ dquote @ question @ dquote @ ''. '' @ newline @ newline @
     ''Current weather data: '' @ weatherContext @ newline @ newline @
     ''Keep your response concise and informative (under 100 words).''"

definition chat_fallback :: "ai_env \<Rightarrow> string list option \<Rightarrow> string" where
  "chat_fallback env locations =
     ''I can help with weather questions! You're currently tracking '' @
     Number_toString env (case locations of None \<Rightarrow> 0 | Some locs \<Rightarrow> of_nat (length locs)) @
     '' locations. Check your weather widgets for current conditions.''"

definition chat_cacheKey :: "ai_env \<Rightarrow> string \<Rightarrow> string list option \<Rightarrow> string" where
  "chat_cacheKey env question locations =
     getCacheKey env ''chat''
       (JObject [(''question'', JString question), (''locations'', json_of_locations locations)])"

definition chat_prepare ::
  "ai_env \<Rightarrow> int \<Rightarrow> CachedResponse js_map \<Rightarrow> string option \<Rightarrow> string list option
     \<Rightarrow> response + (string \<times> string)" where
  "chat_prepare env now aiCache question locations =
     (case question of
        None \<Rightarrow> Inl (fail 400 ''Question is required'')
      | Some q \<Rightarrow>
          if q = [] then Inl (fail 400 ''Question is required'')
          else
            let cacheKey = chat_cacheKey env q locations;
                cachedResponse = getCachedResponse now aiCache cacheKey
            in if truthy cachedResponse then Inl (ok (ChatJson (the cachedResponse)))
               else (case chat_weatherContext env locations of
                       None \<Rightarrow> Inl (fail 500 ''Failed to process chat request'')
                     | Some weatherContext \<Rightarrow> Inr (cacheKey, chat_prompt q weatherContext)))"

text \<open>
  A handler returns its response, the AI cache as it leaves it and the calls it made to the
  generative provider (prompt and token budget). \<open>now\<close> is the clock when the cache is
  read, \<open>later\<close> the clock when the provider's answer is stored.
\<close>

definition handleWeatherChat ::
  "ai_env \<Rightarrow> int \<Rightarrow> int \<Rightarrow> CachedResponse js_map \<Rightarrow> string option \<Rightarrow> string list option
     \<Rightarrow> response \<times> CachedResponse js_map \<times> (string \<times> nat) list" where
  "handleWeatherChat env now later aiCache question locations =
     (case chat_prepare env now aiCache question locations of
        Inl r \<Rightarrow> (r, aiCache, [])
      | Inr (cacheKey, prompt) \<Rightarrow>
          (case callGemini env prompt 200 of
             Some response \<Rightarrow>
               (ok (ChatJson response), setCachedResponse later aiCache cacheKey response,
                [(prompt, 200)])
           | None \<Rightarrow> (ok (ChatJson (chat_fallback env locations)), aiCache, [(prompt, 200)])))"

subsection \<open>POST /api/weather/ai/summary\<close>

text \<open>
  The \<open>forEach\<close> over the results: \<open>weatherSummary\<close> and \<open>successfulResults\<close> are the
  accumulator; \<open>None\<close> is the \<open>TypeError\<close>.
\<close>

definition summary_entry :: "ai_env \<Rightarrow> string \<Rightarrow> AiWeatherData \<Rightarrow> string \<Rightarrow> string" where
  "summary_entry env loc d description0 =
     loc @ '': '' @ Number_toString env (main_temp d) @ degree @ ''C, '' @ description0 @ ''. ''"

fun summary_forEach ::
  "ai_env \<Rightarrow> (string \<times> AiWeatherData option) list \<Rightarrow> string \<times> nat \<Rightarrow> (string \<times> nat) option" where
  "summary_forEach env [] acc = Some acc"
| "summary_forEach env ((loc, None) # rest) acc = summary_forEach env rest acc"
| "summary_forEach env ((loc, Some d) # rest) (weatherSummary, successfulResults) =
     (case weather d of
        [] \<Rightarrow> None
      | w # _ \<Rightarrow>
          summary_forEach env rest
            (weatherSummary @ summary_entry env loc d w, successfulResults + 1))"

text \<open>What the loop appends: one entry for each lookup that succeeded, nothing for the others.\<close>

definition summary_text :: "ai_env \<Rightarrow> (string \<times> AiWeatherData option) list \<Rightarrow> string" where
  "summary_text env ps =
     concat (map (\<lambda>(loc, r). case r of
                               None \<Rightarrow> []
                             | Some d \<Rightarrow> summary_entry env loc d (hd (weather d))) ps)"

definition summary_prompt :: "string \<Rightarrow> string" where
  "summary_prompt weatherSummary =
     ''Create a concise, engaging daily weather summary for these locations: '' @ weatherSummary @
     newline @ newline @
     ''Please:'' @ newline @
     ''- Highlight interesting patterns or contrasts'' @ newline @
     ''- Provide brief insights about the overall weather picture'' @ newline @
     ''- Keep it informative but engaging'' @ newline @
     ''- Limit to 150 words''"

record summary_ctx =
  sc_cacheKey :: string
  sc_prompt :: string
  sc_weatherResults :: "AiWeatherData option list"
  sc_weatherSummary :: string
  sc_successfulResults :: nat

text \<open>\<open>weatherResults.filter(w => w).map(w => w!.main.temp)\<close>.\<close>

definition summary_temps :: "AiWeatherData option list \<Rightarrow> real list" where
  "summary_temps weatherResults = map (\<lambda>w. main_temp (the w)) (filter (\<lambda>w. w \<noteq> None) weatherResults)"

definition summary_fallback :: "ai_env \<Rightarrow> summary_ctx \<Rightarrow> string" where
  "summary_fallback env c =
     (let temps = summary_temps (sc_weatherResults c);
          avgTemp = foldl (\<lambda>a b. a + b) 0 temps / of_nat (length temps)
      in ''Weather Summary: Average temperature across '' @
         Number_toString env (of_nat (sc_successfulResults c)) @ '' locations is '' @
         toFixed1 env avgTemp @ degree @ ''C. '' @ sc_weatherSummary c)"

text \<open>\<open>locations.sort()\<close> sorts the array of the request in place: what follows reads it sorted.\<close>

definition summary_cacheKey :: "ai_env \<Rightarrow> string list \<Rightarrow> string" where
  "summary_cacheKey env locations = getCacheKey env ''summary'' (JArray (map JString (sort locations)))"

definition summary_prepare ::
  "ai_env \<Rightarrow> int \<Rightarrow> CachedResponse js_map \<Rightarrow> string list option \<Rightarrow> response + summary_ctx" where
  "summary_prepare env now aiCache locations =
     (case locations of
        None \<Rightarrow> Inl (fail 400 ''Locations array is required'')
      | Some locs0 \<Rightarrow>
          if length locs0 = 0 then Inl (fail 400 ''Locations array is required'')
          else
            let cacheKey = summary_cacheKey env locs0;
                locs = sort locs0;
                cachedResponse = getCachedResponse now aiCache cacheKey
            in if truthy cachedResponse then Inl (ok (SummaryJson (the cachedResponse)))
               else
                 let weatherResults = map (getWeatherData env) locs
                 in (case summary_forEach env (zip locs weatherResults) ([], 0) of
                       None \<Rightarrow> Inl (fail 500 ''Failed to generate weather summary'')
                     | Some (weatherSummary, successfulResults) \<Rightarrow>
                         if weatherSummary = []
                         then Inl (fail 400 ''No weather data available for provided locations'')
                         else Inr \<lparr>sc_cacheKey = cacheKey,
                                   sc_prompt = summary_prompt weatherSummary,
                                   sc_weatherResults = weatherResults,
                                   sc_weatherSummary = weatherSummary,
                                   sc_successfulResults = successfulResults\<rparr>))"

definition generateWeatherSummary ::
  "ai_env \<Rightarrow> int \<Rightarrow> int \<Rightarrow> CachedResponse js_map \<Rightarrow> string list option
     \<Rightarrow> response \<times> CachedResponse js_map \<times> (string \<times> nat) list" where
  "generateWeatherSummary env now later aiCache locations =
     (case summary_prepare env now aiCache locations of
        Inl r \<Rightarrow> (r, aiCache, [])
      | Inr c \<Rightarrow>
          (case callGemini env (sc_prompt c) 300 of
             Some summary \<Rightarrow>
               (ok (SummaryJson summary), setCachedResponse later aiCache (sc_cacheKey c) summary,
                [(sc_prompt c, 300)])
           | None \<Rightarrow> (ok (SummaryJson (summary_fallback env c)), aiCache, [(sc_prompt c, 300)])))"

subsection \<open>POST /api/weather/ai/suggestions\<close>

definition suggestions_prompt :: "string list option \<Rightarrow> string \<Rightarrow> string" where
  "suggestions_prompt currentLocations interests =
     ''You are a travel and weather advisor. The user currently tracks weather for: '' @
     (let joined = (case currentLocations of None \<Rightarrow> [] | Some ls \<Rightarrow> join '', '' ls)
      in if joined = [] then ''no locations yet'' else joined) @ ''.'' @ newline @ newline @
     ''Their interests are: '' @ interests @ newline @ newline @
     ''Please suggest exactly 5 interesting locations around the world that would be perfect for someone with these interests. For each location, provide:''
     @ newline @
     ''1. The city/country name'' @ newline @
     ''2. Why it matches their interests'' @ newline @
     ''3. What makes the weather/climate special there'' @ newline @ newline @
     ''Format as a numbered list. Be specific and helpful.''"

definition canned_suggestions :: string where
  "canned_suggestions =
     ''1. Barcelona, Spain - Great climate for outdoor activities'' @ newline @
     ''2. Vancouver, Canada - Perfect for nature lovers  '' @ newline @
     ''3. Sydney, Australia - Ideal for beach and city experiences'' @ newline @
     ''4. Tokyo, Japan - Fascinating weather patterns and seasons'' @ newline @
     ''5. Reykjavik, Iceland - Unique Arctic weather phenomena''"

definition suggestions_fallback :: "string \<Rightarrow> string" where
  "suggestions_fallback interests =
     ''Based on your interests in '' @ interests @ '', here are 5 recommended locations:'' @
     newline @ newline @ canned_suggestions"

definition suggestions_cacheKey :: "ai_env \<Rightarrow> string list option \<Rightarrow> string \<Rightarrow> string" where
  "suggestions_cacheKey env currentLocations interests =
     getCacheKey env ''suggestions''
       (JObject [(''currentLocations'', json_of_locations currentLocations),
                 (''interests'', JString interests)])"

definition suggestions_prepare ::
  "ai_env \<Rightarrow> int \<Rightarrow> CachedResponse js_map \<Rightarrow> string list option \<Rightarrow> string option
     \<Rightarrow> response + (string \<times> string)" where
  "suggestions_prepare env now aiCache currentLocations interests =
     (case interests of
        None \<Rightarrow> Inl (fail 400 ''Interests are required'')
      | Some i \<Rightarrow>
          if i = [] then Inl (fail 400 ''Interests are required'')
          else
            let cacheKey = suggestions_cacheKey env currentLocations i;
                cachedResponse = getCachedResponse now aiCache cacheKey
            in if truthy cachedResponse then Inl (ok (SuggestionsJson (the cachedResponse)))
               else Inr (cacheKey, suggestions_prompt currentLocations i))"

definition getLocationSuggestions ::
  "ai_env \<Rightarrow> int \<Rightarrow> int \<Rightarrow> CachedResponse js_map \<Rightarrow> string list option \<Rightarrow> string option
     \<Rightarrow> response \<times> CachedResponse js_map \<times> (string \<times> nat) list" where
  "getLocationSuggestions env now later aiCache currentLocations interests =
     (case suggestions_prepare env now aiCache currentLocations interests of
        Inl r \<Rightarrow> (r, aiCache, [])
      | Inr (cacheKey, prompt) \<Rightarrow>
          (case callGemini env prompt 400 of
             Some suggestions \<Rightarrow>
               (ok (SuggestionsJson suggestions),
                setCachedResponse later aiCache cacheKey suggestions, [(prompt, 400)])
           | None \<Rightarrow>
               (ok (SuggestionsJson (suggestions_fallback (the interests))), aiCache,
                [(prompt, 400)])))"

subsection \<open>POST /api/weather/ai/trivia\<close>

definition trivia_prompt :: "ai_env \<Rightarrow> string \<Rightarrow> AiWeatherData \<Rightarrow> string \<Rightarrow> string" where
  "trivia_prompt env location weatherData description0 =
     ''Generate an interesting weather fact or trivia about '' @ location @
     ''. Current weather: '' @ Number_toString env (main_temp weatherData) @ degree @ ''C, '' @
     description0 @ ''.'' @ newline @ newline @
     ''Please provide a fascinating, educational weather fact that could be about:'' @ newline @
     ''- Historical weather events in this location'' @ newline @
     ''- Unique climate features of this area'' @ newline @
     ''- Interesting meteorological phenomena '' @ newline @
     ''- Record temperatures or weather events'' @ newline @
     ''- How geography affects weather there'' @ newline @ newline @
     ''Make it engaging and surprising! Keep it to 2-3 sentences.''"

definition trivia_fallback :: "ai_env \<Rightarrow> string \<Rightarrow> AiWeatherData \<Rightarrow> string \<Rightarrow> string" where
  "trivia_fallback env location weatherData description0 =
     location @ '' is currently experiencing '' @ description0 @ '' at '' @
     Number_toString env (main_temp weatherData) @ degree @
     ''C. Did you know that weather patterns can vary significantly even within the same city due to local geography and urban heat effects?''"

record trivia_ctx =
  tc_cacheKey :: string
  tc_prompt :: string
  tc_weatherData :: AiWeatherData
  tc_description0 :: string

definition trivia_cacheKey :: "ai_env \<Rightarrow> string \<Rightarrow> string" where
  "trivia_cacheKey env location = getCacheKey env ''trivia'' (JString location)"

definition trivia_prepare ::
  "ai_env \<Rightarrow> int \<Rightarrow> CachedResponse js_map \<Rightarrow> string option \<Rightarrow> response + trivia_ctx" where
  "trivia_prepare env now aiCache location =
     (case location of
        None \<Rightarrow> Inl (fail 400 ''Location is required'')
      | Some l \<Rightarrow>
          if l = [] then Inl (fail 400 ''Location is required'')
          else
            let cacheKey = trivia_cacheKey env l;
                cachedResponse = getCachedResponse now aiCache cacheKey
            in if truthy cachedResponse then Inl (ok (TriviaJson (the cachedResponse) None))
               else (case getWeatherData env l of
                       None \<Rightarrow> Inl (fail 400 (''Unable to fetch weather data for '' @ l))
                     | Some weatherData \<Rightarrow>
                         (case weather weatherData of
                            [] \<Rightarrow> Inl (fail 500 ''Failed to generate weather trivia'')
                          | w # _ \<Rightarrow>
                              Inr \<lparr>tc_cacheKey = cacheKey,
                                   tc_prompt = trivia_prompt env l weatherData w,
                                   tc_weatherData = weatherData,
                                   tc_description0 = w\<rparr>)))"

definition generateWeatherTrivia ::
  "ai_env \<Rightarrow> int \<Rightarrow> int \<Rightarrow> CachedResponse js_map \<Rightarrow> string option
     \<Rightarrow> response \<times> CachedResponse js_map \<times> (string \<times> nat) list" where
  "generateWeatherTrivia env now later aiCache location =
     (case trivia_prepare env now aiCache location of
        Inl r \<Rightarrow> (r, aiCache, [])
      | Inr c \<Rightarrow>
          (case callGemini env (tc_prompt c) 200 of
             Some trivia \<Rightarrow>
               (ok (TriviaJson trivia (Some (tc_weatherData c))),
                setCachedResponse later aiCache (tc_cacheKey c) trivia, [(tc_prompt c, 200)])
           | None \<Rightarrow>
               (ok (TriviaJson (trivia_fallback env (the location) (tc_weatherData c) (tc_description0 c))
                      (Some (tc_weatherData c))),
                aiCache, [(tc_prompt c, 200)])))"

subsection \<open>An environment for the examples\<close>

text \<open>
  Two towns the weather provider knows, numbers printed from a small table, a serialiser
  for strings that need no escaping, and a generative provider given as a parameter.
\<close>

definition rome_weather :: AiWeatherData where
  "rome_weather =
     \<lparr>main_temp = 21.5, main_humidity = 40, weather = [''clear sky''], wind_speed = 3,
      visibility = None\<rparr>"

definition oslo_weather :: AiWeatherData where
  "oslo_weather =
     \<lparr>main_temp = 4.5, main_humidity = 80, weather = [''light snow''], wind_speed = 5,
      visibility = None\<rparr>"

definition example_getWeatherData :: "string \<Rightarrow> AiWeatherData option" where
  "example_getWeatherData =
     map_of [(''Rome'', rome_weather), (''Oslo'', oslo_weather)]"

definition example_Number_toString :: "real \<Rightarrow> string" where
  "example_Number_toString x =
     (case map_of [(0, ''0''), (1, ''1''), (2, ''2''), (4.5, ''4.5''), (13, ''13''),
                   (21.5, ''21.5''), (40, ''40''), (80, ''80'')] x of
        Some s \<Rightarrow> s
      | None \<Rightarrow> ''?'')"

definition example_toFixed1 :: "real \<Rightarrow> string" where
  "example_toFixed1 x =
     (case map_of [(4.5, ''4.5''), (13, ''13.0''), (21.5, ''21.5'')] x of
        Some s \<Rightarrow> s
      | None \<Rightarrow> ''?'')"

fun example_stringify :: "json \<Rightarrow> string" where
  "example_stringify JUndefined = ''undefined''"
| "example_stringify JNull = ''null''"
| "example_stringify (JBool b) = (if b then ''true'' else ''false'')"
| "example_stringify (JNumber x) = example_Number_toString x"
| "example_stringify (JString s) = dquote @ s @ dquote"
| "example_stringify (JArray xs) = ''['' @ join '','' (map example_stringify xs) @ '']''"
| "example_stringify (JObject kvs) =
     ''{'' @ join '','' (map (\<lambda>(k, v). dquote @ k @ dquote @ '':'' @ example_stringify v)
                          (filter (\<lambda>(k, v). v \<noteq> JUndefined) kvs)) @ ''}''"

definition example_env :: "(string \<Rightarrow> nat \<Rightarrow> string option) \<Rightarrow> ai_env" where
  "example_env gemini =
     \<lparr>getWeatherData = example_getWeatherData, callGemini = gemini,
      JSON_stringify = example_stringify, Number_toString = example_Number_toString,
      toFixed1 = example_toFixed1\<rparr>"

definition gemini_down :: "string \<Rightarrow> nat \<Rightarrow> string option" where
  "gemini_down prompt maxTokens = None"

definition gemini_up :: "string \<Rightarrow> nat \<Rightarrow> string option" where
  "gemini_up prompt maxTokens = Some ''Sunny spells.''"

definition gemini_silent :: "string \<Rightarrow> nat \<Rightarrow> string option" where
  "gemini_silent prompt maxTokens = Some []"

section \<open>models/Widget.ts and controllers/widgetController.ts\<close>

record Widget =
  widget_id :: string
  location :: string
  createdAt :: int
  updatedAt :: int

text \<open>
  The bodies \<open>createWidget\<close> sends. The texts of \<open>errorMessages\<close> are those of a helper
  module; each constructor stands for the pair of texts the handler sends, the validation
  error carries the \<open>message\<close> of the error thrown by \<open>save\<close>.
\<close>

datatype widget_body =
  InvalidInput_LocationRequired
| WidgetAlreadyExists string
| ValidationError string
| FailedToCreateWidget
| Saved Widget

record widget_response =
  code :: nat
  payload :: widget_body

subsection \<open>The regular expression of the duplicate check\<close>

text \<open>
  \<open>new RegExp(`^${trimmedLocation}$`, 'i')\<close> puts the trimmed location, as it is, between
  the two anchors. The model covers the patterns made of ordinary characters, the dot and
  the postfix quantifiers \<open>*\<close>, \<open>+\<close> and \<open>?\<close> on a single character or dot. A pattern with any
  other syntax character (anchor, backslash, bracket, brace, parenthesis, bar), or with a
  quantifier where a character is expected, is outside the fragment: \<open>parse_pattern\<close>
  answers \<open>None\<close>.
\<close>

datatype atom = Lit char | AnyChar

datatype quantifier = Once | Star | Plus | Opt

type_synonym pattern = "(atom \<times> quantifier) list"

definition quantifier_chars :: string where
  "quantifier_chars = ''*+?''"

definition other_syntax_chars :: string where
  "other_syntax_chars = [CHR ''^'', CHR ''$'', CHR 0x5C, CHR ''('', CHR '')'', CHR ''['', CHR '']'',
                         CHR ''{'', CHR ''}'', CHR ''|'']"

definition atom_of :: "char \<Rightarrow> atom" where
  "atom_of c = (if c = CHR ''.'' then AnyChar else Lit c)"

definition quantifier_of :: "char \<Rightarrow> quantifier" where
  "quantifier_of q = (if q = CHR ''*'' then Star else if q = CHR ''+'' then Plus else Opt)"

fun parse_pattern :: "string \<Rightarrow> pattern option" where
  "parse_pattern [] = Some []"
| "parse_pattern [c] =
     (if c \<in> set quantifier_chars \<or> c \<in> set other_syntax_chars then None
      else Some [(atom_of c, Once)])"
| "parse_pattern (c # q # rest) =
     (if c \<in> set quantifier_chars \<or> c \<in> set other_syntax_chars then None
      else if q \<in> set quantifier_chars
           then map_option (\<lambda>p. (atom_of c, quantifier_of q) # p) (parse_pattern rest)
           else map_option (\<lambda>p. (atom_of c, Once) # p) (parse_pattern (q # rest)))"

text \<open>
  With the flag \<open>i\<close> a character of the pattern matches itself in either case; the dot
  matches any character but a line terminator.
\<close>

definition match_atom :: "atom \<Rightarrow> char \<Rightarrow> bool" where
  "match_atom a x =
     (case a of
        Lit c \<Rightarrow> lower_char c = lower_char x
      | AnyChar \<Rightarrow> x \<noteq> CHR 0x0A \<and> x \<noteq> CHR 0x0D)"

text \<open>The pattern between \<open>^\<close> and \<open>$\<close> matches the whole of the string.\<close>

fun matches :: "pattern \<Rightarrow> string \<Rightarrow> bool" where
  "matches [] s = (s = [])"
| "matches ((a, Once) # ps) s =
     (case s of [] \<Rightarrow> False | x # xs \<Rightarrow> match_atom a x \<and> matches ps xs)"
| "matches ((a, Opt) # ps) s =
     (matches ps s \<or> (case s of [] \<Rightarrow> False | x # xs \<Rightarrow> match_atom a x \<and> matches ps xs))"
| "matches ((a, Star) # ps) s =
     (matches ps s \<or>
      (case s of [] \<Rightarrow> False | x # xs \<Rightarrow> match_atom a x \<and> matches ((a, Star) # ps) xs))"
| "matches ((a, Plus) # ps) s =
     (case s of [] \<Rightarrow> False | x # xs \<Rightarrow> match_atom a x \<and> matches ((a, Star) # ps) xs)"

subsection \<open>The request and the schema\<close>

text \<open>\<open>!location\<close> and \<open>typeof location !== 'string'\<close> on the value of the request body.\<close>

definition js_falsy :: "json \<Rightarrow> bool" where
  "js_falsy v =
     (case v of
        JUndefined \<Rightarrow> True
      | JNull \<Rightarrow> True
      | JBool b \<Rightarrow> \<not> b
      | JNumber x \<Rightarrow> x = 0
      | JString s \<Rightarrow> s = []
      | JArray xs \<Rightarrow> False
      | JObject kvs \<Rightarrow> False)"

text \<open>
  The validators of the schema on \<open>location\<close>, run by \<open>save\<close>: \<open>minlength\<close> 2 and
  \<open>maxlength\<close> 100, on the length of the string, which for an ASCII string is the length
  of the list. \<open>None\<close> when the value passes.
\<close>

definition schema_validate :: "string \<Rightarrow> string option" where
  "schema_validate l =
     (if length l < 2 then Some ''Location must be at least 2 characters long''
      else if length l > 100 then Some ''Location must be less than 100 characters''
      else None)"

text \<open>
  The \<open>message\<close> of the \<open>ValidationError\<close> that \<open>save\<close> throws for the model \<open>Widget\<close> when
  the validator of \<open>location\<close> fails, which the handler sends as it is.
\<close>

definition validation_failed :: "string \<Rightarrow> string" where
  "validation_failed message = ''Widget validation failed: location: '' @ message"

text \<open>
  \<open>createWidget\<close>, on a collection that answers its queries. The store assigns \<open>newId\<close> and
  the timestamps \<open>now\<close>. The result is \<open>None\<close> when the pattern built from the location is
  outside the modelled fragment of regular expressions.
\<close>

definition createWidget ::
  "string \<Rightarrow> int \<Rightarrow> Widget list \<Rightarrow> json \<Rightarrow> (widget_response \<times> Widget list) option" where
  "createWidget newId now store v =
     (case v of
        JString s \<Rightarrow>
          if js_falsy v \<or> length (trim s) = 0
          then Some (\<lparr>code = 400, payload = InvalidInput_LocationRequired\<rparr>, store)
          else
            let trimmedLocation = trim s
            in (case parse_pattern trimmedLocation of
                  None \<Rightarrow> None
                | Some p \<Rightarrow>
                    (case find (\<lambda>w. matches p (location w)) store of
                       Some existingWidget \<Rightarrow>
                         Some (\<lparr>code = 409, payload = WidgetAlreadyExists trimmedLocation\<rparr>, store)
                     | None \<Rightarrow>
                         (case schema_validate trimmedLocation of
                            Some message \<Rightarrow>
                              Some (\<lparr>code = 400,
                                     payload = ValidationError (validation_failed message)\<rparr>,
                                    store)
                          | None \<Rightarrow>
                              (let savedWidget = \<lparr>widget_id = newId, location = trimmedLocation,
                                                   createdAt = now, updatedAt = now\<rparr>
                               in Some (\<lparr>code = 201, payload = Saved savedWidget\<rparr>,
                                        store @ [savedWidget])))))
      | _ \<Rightarrow> Some (\<lparr>code = 400, payload = InvalidInput_LocationRequired\<rparr>, store))"

text \<open>A location with no syntax character of regular expressions.\<close>

definition plain :: "string \<Rightarrow> bool" where
  "plain l = (\<forall>c \<in> set l. c \<noteq> CHR ''.'' \<and> c \<notin> set quantifier_chars \<and> c \<notin> set other_syntax_chars)"

text \<open>
  A widget as the collection holds it, in the scope of the model: its location is an ASCII
  string, in the trimmed form the setter of the schema gives it.
\<close>

definition stored_ascii_trimmed :: "Widget \<Rightarrow> bool" where
  "stored_ascii_trimmed w = (is_ascii (location w) \<and> trim (location w) = location w)"

definition paris :: Widget where
  "paris = \<lparr>widget_id = ''w1'', location = ''Paris'', createdAt = 1000, updatedAt = 1000\<rparr>"

definition a_plus_b :: Widget where
  "a_plus_b = \<lparr>widget_id = ''w1'', location = ''a+b'', createdAt = 1000, updatedAt = 1000\<rparr>"

section \<open>Facts about the Map\<close>

lemma Map_get_delete_same: "Map_get (Map_delete k m) k = None"
  by (induction m) (auto simp: Map_get_def Map_delete_def)

lemma Map_get_delete_other: "k' \<noteq> k \<Longrightarrow> Map_get (Map_delete k m) k' = Map_get m k'"
  by (induction m) (auto simp: Map_get_def Map_delete_def)

lemma Map_get_set_same: "Map_get (Map_set k v m) k = Some v"
  by (induction m) (auto simp: Map_get_def)

lemma Map_get_set_other: "k' \<noteq> k \<Longrightarrow> Map_get (Map_set k v m) k' = Map_get m k'"
  by (induction m) (auto simp: Map_get_def)

lemma Map_set_keys:
  "map fst (Map_set k v m) = (if k \<in> set (map fst m) then map fst m else map fst m @ [k])"
  by (induction m) auto

lemma Map_wf_set: "Map_wf m \<Longrightarrow> Map_wf (Map_set k v m)"
  by (simp add: Map_wf_def Map_set_keys)

lemma Map_wf_delete: "Map_wf m \<Longrightarrow> Map_wf (Map_delete k m)"
  by (simp add: Map_wf_def Map_delete_def distinct_map_filter)

section \<open>The cache: reading\<close>

text \<open>
  Claim C4. For every key and cache state: with no entry for the key, \<open>get\<close> returns absent
  and leaves the cache alone; with an entry whose age (now minus its timestamp) exceeds the
  configured duration, \<open>get\<close> removes the entry and returns absent, and \<open>has\<close> on the
  resulting cache, at any later reading of the clock, returns false; with an entry that is
  not expired, \<open>get\<close> returns the stored value and leaves the cache alone.
\<close>

theorem cache_get_absent_expired_fresh:
  "(Map_get cache k = None \<longrightarrow> cache_get d now cache k = (None, cache)) \<and>
   (\<forall>item. Map_get cache k = Some item \<and> now - timestamp item > d \<longrightarrow>
        fst (cache_get d now cache k) = None \<and>
        snd (cache_get d now cache k) = Map_delete k cache \<and>
        Map_get (snd (cache_get d now cache k)) k = None \<and>
        (\<forall>now'. fst (cache_has d now' (snd (cache_get d now cache k)) k) = False)) \<and>
   (\<forall>item. Map_get cache k = Some item \<and> \<not> now - timestamp item > d \<longrightarrow>
        cache_get d now cache k = (Some (data item), cache))"
  by (simp add: cache_get_def cache_has_def isExpired_def Map_get_delete_same)

theorem cache_get_absent_expired_fresh_witness:
  "cache_get 300000 400000 example_cache ''lima'' = (None, example_cache) \<and>
   cache_get 300000 400000 example_cache ''rome'' =
     (None, [(''oslo'', \<lparr>data = 4, timestamp = 200000, key = ''oslo''\<rparr>)]) \<and>
   fst (cache_has 300000 400001 (snd (cache_get 300000 400000 example_cache ''rome'')) ''rome'') = False \<and>
   cache_get 300000 400000 example_cache ''oslo'' = (Some 4, example_cache)"
proof -
  let ?rome = "\<lparr>data = 21::nat, timestamp = 0, key = ''rome''\<rparr>"
  let ?oslo = "\<lparr>data = 4::nat, timestamp = 200000, key = ''oslo''\<rparr>"
  have absent: "Map_get example_cache ''lima'' = None"
    by (simp add: example_cache_def Map_get_def)
  have expired: "Map_get example_cache ''rome'' = Some ?rome \<and> 400000 - timestamp ?rome > 300000"
    by (simp add: example_cache_def Map_get_def)
  have fresh: "Map_get example_cache ''oslo'' = Some ?oslo \<and> \<not> 400000 - timestamp ?oslo > 300000"
    by (simp add: example_cache_def Map_get_def)
  have del: "Map_delete ''rome'' example_cache = [(''oslo'', ?oslo)]"
    by (simp add: example_cache_def Map_delete_def)
  from cache_get_absent_expired_fresh [of example_cache "''lima''" 300000 400000] absent
  have r1: "cache_get 300000 400000 example_cache ''lima'' = (None, example_cache)"
    by blast
  from cache_get_absent_expired_fresh [of example_cache "''rome''" 300000 400000] expired
  have r2: "fst (cache_get 300000 400000 example_cache ''rome'') = None \<and>
           snd (cache_get 300000 400000 example_cache ''rome'') = Map_delete ''rome'' example_cache \<and>
           fst (cache_has 300000 400001 (snd (cache_get 300000 400000 example_cache ''rome'')) ''rome'') = False"
    by blast
  from cache_get_absent_expired_fresh [of example_cache "''oslo''" 300000 400000] fresh
  have r3: "cache_get 300000 400000 example_cache ''oslo'' = (Some (data ?oslo), example_cache)"
    by blast
  from r2 del have r2a: "cache_get 300000 400000 example_cache ''rome'' = (None, [(''oslo'', ?oslo)])"
    by (simp add: prod_eq_iff)
  from r2 have r2b:
    "fst (cache_has 300000 400001 (snd (cache_get 300000 400000 example_cache ''rome'')) ''rome'') = False"
    by blast
  from r3 have r3a: "cache_get 300000 400000 example_cache ''oslo'' = (Some 4, example_cache)"
    by simp
  from r1 r2a r2b r3a show ?thesis
    by blast
qed

section \<open>The cache: the sweep\<close>

lemma clearExpired_loop_filter:
  "clearExpired_loop d now es c =
     filter (\<lambda>p. fst p \<notin> fst ` {e \<in> set es. isExpired d now (snd e)}) c"
proof (induction es arbitrary: c)
  case Nil
  then show ?case by simp
next
  case (Cons e es)
  obtain k item where e: "e = (k, item)" by (cases e)
  show ?case
  proof (cases "isExpired d now item")
    case True
    have "clearExpired_loop d now (e # es) c = clearExpired_loop d now es (Map_delete k c)"
      using True e by simp
    also have "\<dots> =
        filter (\<lambda>p. fst p \<notin> fst ` {e \<in> set es. isExpired d now (snd e)}) (Map_delete k c)"
      by (rule Cons.IH)
    also have "\<dots> =
        filter (\<lambda>p. fst p \<notin> fst ` {e' \<in> set (e # es). isExpired d now (snd e')}) c"
      unfolding Map_delete_def filter_filter using True e
      by (intro filter_cong) (auto simp: image_iff)
    finally show ?thesis .
  next
    case False
    have "clearExpired_loop d now (e # es) c = clearExpired_loop d now es c"
      using False e by simp
    also have "\<dots> = filter (\<lambda>p. fst p \<notin> fst ` {e \<in> set es. isExpired d now (snd e)}) c"
      by (rule Cons.IH)
    also have "\<dots> =
        filter (\<lambda>p. fst p \<notin> fst ` {e' \<in> set (e # es). isExpired d now (snd e')}) c"
      using False e by (intro filter_cong) (auto simp: image_iff)
    finally show ?thesis .
  qed
qed

lemma clearExpired_filter:
  assumes "Map_wf c"
  shows "clearExpired d now c = filter (\<lambda>p. \<not> isExpired d now (snd p)) c"
proof -
  have "fst p \<in> fst ` {e \<in> set c. isExpired d now (snd e)} \<longleftrightarrow> isExpired d now (snd p)"
    if "p \<in> set c" for p
  proof
    assume "fst p \<in> fst ` {e \<in> set c. isExpired d now (snd e)}"
    then obtain e where e: "e \<in> set c" "isExpired d now (snd e)" "fst e = fst p" by auto
    from assms e(1) that e(3) have "e = p"
      unfolding Map_wf_def by (metis eq_key_imp_eq_value prod.collapse)
    with e(2) show "isExpired d now (snd p)" by simp
  next
    assume "isExpired d now (snd p)"
    with that show "fst p \<in> fst ` {e \<in> set c. isExpired d now (snd e)}" by auto
  qed
  then show ?thesis
    unfolding clearExpired_def clearExpired_loop_filter
    by (intro filter_cong) auto
qed

text \<open>
  Claim C5. On a Map (keys held once), the sweep keeps, in order and unchanged, exactly the
  entries whose age does not exceed the configured duration, and removes the others; when
  every entry present is past expiry, no entry is left.
\<close>

theorem clearExpired_removes_exactly_expired:
  assumes "Map_wf cache"
  shows "clearExpired d now cache = filter (\<lambda>(k, item). \<not> now - timestamp item > d) cache \<and>
         ((\<forall>(k, item) \<in> set cache. now - timestamp item > d) \<longrightarrow>
            length (clearExpired d now cache) = 0)"
proof -
  have eq: "clearExpired d now cache = filter (\<lambda>(k, item). \<not> now - timestamp item > d) cache"
    using clearExpired_filter [OF assms, of d now]
    by (simp add: isExpired_def case_prod_unfold)
  have "length (clearExpired d now cache) = 0"
    if "\<forall>(k, item) \<in> set cache. now - timestamp item > d"
    using that unfolding eq by (auto simp: filter_empty_conv)
  with eq show ?thesis by blast
qed

theorem clearExpired_removes_exactly_expired_witness:
  "Map_wf example_cache \<and>
   clearExpired 300000 400000 example_cache =
     [(''oslo'', \<lparr>data = 4, timestamp = 200000, key = ''oslo''\<rparr>)] \<and>
   length (clearExpired 300000 600000 example_cache) = 0"
proof -
  have wf: "Map_wf example_cache"
    by (simp add: Map_wf_def example_cache_def)
  have all: "\<forall>(k, item) \<in> set example_cache. 600000 - timestamp item > 300000"
    by (simp add: example_cache_def)
  from clearExpired_removes_exactly_expired [OF wf, of 300000 400000]
  have "clearExpired 300000 400000 example_cache =
          filter (\<lambda>(k, item). \<not> 400000 - timestamp item > 300000) example_cache"
    by blast
  then have keep: "clearExpired 300000 400000 example_cache =
      [(''oslo'', \<lparr>data = 4, timestamp = 200000, key = ''oslo''\<rparr>)]"
    by (simp add: example_cache_def)
  from clearExpired_removes_exactly_expired [OF wf, of 300000 600000] all
  have "length (clearExpired 300000 600000 example_cache) = 0"
    by blast
  with wf keep show ?thesis
    by blast
qed

section \<open>The weather service: codes\<close>

lemmas icon_defs = icon_clear_def icon_partly_cloudy_def icon_fog_def icon_rain_def
  icon_snow_def icon_rain_showers_def icon_thunderstorm_def icon_unknown_def

text \<open>
  Claim C6. For every numeric weather code the icon is the one of the first threshold, in
  ascending order, that the code does not exceed: the clear icon exactly at 0, the partly
  cloudy icon for the other codes up to 3, then fog up to 48, rain up to 67, snow up to 77,
  rain showers up to 82, thunderstorm up to 99, and the default icon above 99. The
  description is read from the exact-match table: each listed code has its own text (code 0
  is "Clear sky", code 96 is "Thunderstorm with hail") and the description is "Unknown"
  exactly for the codes the table does not list, such as 10, whose icon is fog.
\<close>

theorem weather_code_icon_and_description:
  "(getWeatherIcon c = icon_clear \<longleftrightarrow> c = 0) \<and>
   (getWeatherIcon c = icon_partly_cloudy \<longleftrightarrow> c \<noteq> 0 \<and> c \<le> 3) \<and>
   (getWeatherIcon c = icon_fog \<longleftrightarrow> 3 < c \<and> c \<le> 48) \<and>
   (getWeatherIcon c = icon_rain \<longleftrightarrow> 48 < c \<and> c \<le> 67) \<and>
   (getWeatherIcon c = icon_snow \<longleftrightarrow> 67 < c \<and> c \<le> 77) \<and>
   (getWeatherIcon c = icon_rain_showers \<longleftrightarrow> 77 < c \<and> c \<le> 82) \<and>
   (getWeatherIcon c = icon_thunderstorm \<longleftrightarrow> 82 < c \<and> c \<le> 99) \<and>
   (getWeatherIcon c = icon_unknown \<longleftrightarrow> 99 < c) \<and>
   map getWeatherDescription (map fst descriptions) = map snd descriptions \<and>
   (getWeatherDescription c = ''Unknown'' \<longleftrightarrow>
      c \<notin> {0, 1, 2, 3, 45, 48, 51, 53, 55, 61, 63, 65, 71, 73, 75, 80, 81, 82, 95, 96, 99}) \<and>
   getWeatherDescription 0 = ''Clear sky'' \<and>
   getWeatherDescription 96 = ''Thunderstorm with hail'' \<and>
   getWeatherIcon 10 = icon_fog \<and>
   getWeatherDescription 10 = ''Unknown''"
proof -
  have icons:
    "(getWeatherIcon c = icon_clear \<longleftrightarrow> c = 0) \<and>
     (getWeatherIcon c = icon_partly_cloudy \<longleftrightarrow> c \<noteq> 0 \<and> c \<le> 3) \<and>
     (getWeatherIcon c = icon_fog \<longleftrightarrow> 3 < c \<and> c \<le> 48) \<and>
     (getWeatherIcon c = icon_rain \<longleftrightarrow> 48 < c \<and> c \<le> 67) \<and>
     (getWeatherIcon c = icon_snow \<longleftrightarrow> 67 < c \<and> c \<le> 77) \<and>
     (getWeatherIcon c = icon_rain_showers \<longleftrightarrow> 77 < c \<and> c \<le> 82) \<and>
     (getWeatherIcon c = icon_thunderstorm \<longleftrightarrow> 82 < c \<and> c \<le> 99) \<and>
     (getWeatherIcon c = icon_unknown \<longleftrightarrow> 99 < c)"
    by (simp add: getWeatherIcon_def icon_defs)
  have table: "map getWeatherDescription (map fst descriptions) = map snd descriptions"
    by (simp add: getWeatherDescription_def descriptions_def)
  have unknown: "getWeatherDescription c = ''Unknown'' \<longleftrightarrow>
      c \<notin> {0, 1, 2, 3, 45, 48, 51, 53, 55, 61, 63, 65, 71, 73, 75, 80, 81, 82, 95, 96, 99}"
    by (simp add: getWeatherDescription_def descriptions_def)
  have examples:
    "getWeatherDescription 0 = ''Clear sky'' \<and>
     getWeatherDescription 96 = ''Thunderstorm with hail'' \<and>
     getWeatherIcon 10 = icon_fog \<and>
     getWeatherDescription 10 = ''Unknown''"
    by (simp add: getWeatherDescription_def descriptions_def getWeatherIcon_def)
  from icons table unknown examples show ?thesis
    by blast
qed

section \<open>The weather service: the cached lookup\<close>






section \<open>The AI handlers: provider failure\<close>

lemma foldl_plus_sum_list: "foldl (\<lambda>a b. a + b) a xs = a + sum_list (xs :: real list)"
  by (induction xs arbitrary: a) simp_all

lemma summary_entry_nonempty: "summary_entry env loc d w \<noteq> []"
  by (simp add: summary_entry_def)

lemma summary_forEach_Some:
  "summary_forEach env ps (s, n) = Some (s', n') \<Longrightarrow>
     s' = s @ summary_text env ps \<and> n' = n + length (filter (\<lambda>p. snd p \<noteq> None) ps)"
proof (induction env ps "(s, n)" arbitrary: s n rule: summary_forEach.induct)
  case (1 env)
  then show ?case by (simp add: summary_text_def)
next
  case (2 env loc rest)
  then show ?case by (simp add: summary_text_def)
next
  case (3 env loc d rest weatherSummary successfulResults)
  then show ?case
    by (cases "weather d") (auto simp: summary_text_def)
qed

lemma summary_forEach_total:
  "(\<forall>p \<in> set ps. \<forall>d. snd p = Some d \<longrightarrow> weather d \<noteq> []) \<Longrightarrow>
     \<exists>r. summary_forEach env ps acc = Some r"
proof (induction env ps acc rule: summary_forEach.induct)
  case (3 env loc d rest weatherSummary successfulResults)
  then show ?case by (cases "weather d") auto
qed auto

lemma summary_text_empty_iff:
  "summary_text env ps = [] \<longleftrightarrow> (\<forall>p \<in> set ps. snd p = None)"
  by (induction ps) (auto simp: summary_text_def summary_entry_nonempty split: option.splits)

lemma zip_map_self: "zip xs (map f xs) = map (\<lambda>x. (x, f x)) xs"
  by (induction xs) simp_all

lemma summary_prepare_Inr:
  assumes "summary_prepare env now aiCache locations = Inr c"
  shows "\<exists>locs. locations = Some locs \<and> locs \<noteq> [] \<and>
           \<not> truthy (getCachedResponse now aiCache (summary_cacheKey env locs)) \<and>
           sc_cacheKey c = summary_cacheKey env locs \<and>
           sc_weatherResults c = map (getWeatherData env) (sort locs) \<and>
           sc_prompt c = summary_prompt (sc_weatherSummary c) \<and>
           sc_weatherSummary c \<noteq> [] \<and>
           sc_weatherSummary c =
             summary_text env (zip (sort locs) (map (getWeatherData env) (sort locs))) \<and>
           sc_successfulResults c =
             length (filter (\<lambda>w. w \<noteq> None) (map (getWeatherData env) (sort locs)))"
proof -
  from assms obtain locs where locs: "locations = Some locs" "locs \<noteq> []"
    by (auto simp: summary_prepare_def split: option.splits if_splits)
  let ?rs = "map (getWeatherData env) (sort locs)"
  from assms locs have miss: "\<not> truthy (getCachedResponse now aiCache (summary_cacheKey env locs))"
    by (auto simp: summary_prepare_def Let_def split: if_splits)
  from assms locs miss obtain ws n where
    loop: "summary_forEach env (zip (sort locs) ?rs) ([], 0) = Some (ws, n)" and
    ws: "ws \<noteq> []" and
    c: "c = \<lparr>sc_cacheKey = summary_cacheKey env locs, sc_prompt = summary_prompt ws,
              sc_weatherResults = ?rs, sc_weatherSummary = ws, sc_successfulResults = n\<rparr>"
    by (auto simp: summary_prepare_def Let_def split: option.splits if_splits)
  from summary_forEach_Some [OF loop]
  have "ws = summary_text env (zip (sort locs) ?rs)"
    and "n = length (filter (\<lambda>p. snd p \<noteq> None) (zip (sort locs) ?rs))"
    by simp_all
  moreover have "length (filter (\<lambda>p. snd p \<noteq> None) (zip (sort locs) ?rs)) =
      length (filter (\<lambda>w. w \<noteq> None) ?rs)"
    unfolding zip_map_self by (simp add: filter_map comp_def)
  ultimately show ?thesis
    using locs miss ws c by simp
qed

text \<open>
  Claim C1. Each of the four AI handlers, once it has reached the call of the generative
  provider, answers a failure of that call with status 200 and a string computed from the
  request and the weather data alone, leaves the cache as it was and has made the one call.
  For the summary the string is never empty and is the sentence giving the number of
  locations fetched (at least one) and the average of their temperatures, followed by the
  context; for the suggestions it is the introduction naming the interests followed by the
  fixed list of five places.
\<close>

theorem provider_failure_falls_back:
  "(\<forall>k p. chat_prepare env now aiCache question locations = Inr (k, p) \<and>
           callGemini env p 200 = None \<longrightarrow>
      handleWeatherChat env now later aiCache question locations =
        (\<lparr>status = 200, body = ChatJson (chat_fallback env locations)\<rparr>, aiCache, [(p, 200)])) \<and>
   (\<forall>c. summary_prepare env now aiCache locations = Inr c \<and>
        callGemini env (sc_prompt c) 300 = None \<longrightarrow>
      generateWeatherSummary env now later aiCache locations =
        (\<lparr>status = 200, body = SummaryJson (summary_fallback env c)\<rparr>, aiCache,
         [(sc_prompt c, 300)]) \<and>
      summary_fallback env c \<noteq> [] \<and>
      (let temps = map (\<lambda>w. main_temp (the w))
                     (filter (\<lambda>w. w \<noteq> None) (map (getWeatherData env) (sort (the locations))))
       in temps \<noteq> [] \<and>
          summary_fallback env c =
            ''Weather Summary: Average temperature across '' @
            Number_toString env (of_nat (length temps)) @ '' locations is '' @
            toFixed1 env (sum_list temps / of_nat (length temps)) @ degree @ ''C. '' @
            sc_weatherSummary c)) \<and>
   (\<forall>k p. suggestions_prepare env now aiCache currentLocations interests = Inr (k, p) \<and>
           callGemini env p 400 = None \<longrightarrow>
      (\<exists>i. interests = Some i \<and>
        getLocationSuggestions env now later aiCache currentLocations interests =
          (\<lparr>status = 200,
            body = SuggestionsJson (''Based on your interests in '' @ i @
                     '', here are 5 recommended locations:'' @ newline @ newline @
                     canned_suggestions)\<rparr>,
           aiCache, [(p, 400)]))) \<and>
   (\<forall>c. trivia_prepare env now aiCache loc = Inr c \<and>
        callGemini env (tc_prompt c) 200 = None \<longrightarrow>
      generateWeatherTrivia env now later aiCache loc =
        (\<lparr>status = 200,
          body = TriviaJson (trivia_fallback env (the loc) (tc_weatherData c) (tc_description0 c))
                   (Some (tc_weatherData c))\<rparr>,
         aiCache, [(tc_prompt c, 200)]))"
proof (intro conjI allI impI)
  fix k p
  assume "chat_prepare env now aiCache question locations = Inr (k, p) \<and> callGemini env p 200 = None"
  then show "handleWeatherChat env now later aiCache question locations =
      (\<lparr>status = 200, body = ChatJson (chat_fallback env locations)\<rparr>, aiCache, [(p, 200)])"
    by (simp add: handleWeatherChat_def ok_def)
next
  fix c
  assume a: "summary_prepare env now aiCache locations = Inr c \<and>
      callGemini env (sc_prompt c) 300 = None"
  then show "generateWeatherSummary env now later aiCache locations =
      (\<lparr>status = 200, body = SummaryJson (summary_fallback env c)\<rparr>, aiCache, [(sc_prompt c, 300)])"
    by (simp add: generateWeatherSummary_def ok_def)
  show "summary_fallback env c \<noteq> []"
    by (simp add: summary_fallback_def Let_def)
  from a summary_prepare_Inr [of env now aiCache locations c]
  obtain locs where locs: "locations = Some locs"
    and rs: "sc_weatherResults c = map (getWeatherData env) (sort locs)"
    and ws: "sc_weatherSummary c \<noteq> []"
      "sc_weatherSummary c = summary_text env (zip (sort locs) (map (getWeatherData env) (sort locs)))"
    and n: "sc_successfulResults c =
      length (filter (\<lambda>w. w \<noteq> None) (map (getWeatherData env) (sort locs)))"
    by blast
  let ?temps = "map (\<lambda>w. main_temp (the w))
      (filter (\<lambda>w. w \<noteq> None) (map (getWeatherData env) (sort (the locations))))"
  from ws have "\<exists>p \<in> set (zip (sort locs) (map (getWeatherData env) (sort locs))). snd p \<noteq> None"
    by (metis summary_text_empty_iff)
  then have "filter (\<lambda>w. w \<noteq> None) (map (getWeatherData env) (sort locs)) \<noteq> []"
    unfolding zip_map_self by (auto simp: filter_empty_conv)
  then have nonempty: "?temps \<noteq> []"
    using locs by simp
  have "summary_fallback env c =
      ''Weather Summary: Average temperature across '' @
      Number_toString env (of_nat (length ?temps)) @ '' locations is '' @
      toFixed1 env (sum_list ?temps / of_nat (length ?temps)) @ degree @ ''C. '' @
      sc_weatherSummary c"
    using locs rs n
    by (simp add: summary_fallback_def summary_temps_def Let_def foldl_plus_sum_list)
  with nonempty show "let temps = ?temps
       in temps \<noteq> [] \<and>
          summary_fallback env c =
            ''Weather Summary: Average temperature across '' @
            Number_toString env (of_nat (length temps)) @ '' locations is '' @
            toFixed1 env (sum_list temps / of_nat (length temps)) @ degree @ ''C. '' @
            sc_weatherSummary c"
    unfolding Let_def by blast
next
  fix k p
  assume a: "suggestions_prepare env now aiCache currentLocations interests = Inr (k, p) \<and>
      callGemini env p 400 = None"
  then obtain i where i: "interests = Some i"
    by (auto simp: suggestions_prepare_def split: option.splits)
  with a have "getLocationSuggestions env now later aiCache currentLocations interests =
      (\<lparr>status = 200,
        body = SuggestionsJson (''Based on your interests in '' @ i @
                 '', here are 5 recommended locations:'' @ newline @ newline @
                 canned_suggestions)\<rparr>,
       aiCache, [(p, 400)])"
    by (simp add: getLocationSuggestions_def ok_def suggestions_fallback_def)
  with i show "\<exists>i. interests = Some i \<and>
      getLocationSuggestions env now later aiCache currentLocations interests =
        (\<lparr>status = 200,
          body = SuggestionsJson (''Based on your interests in '' @ i @
                   '', here are 5 recommended locations:'' @ newline @ newline @
                   canned_suggestions)\<rparr>,
         aiCache, [(p, 400)])"
    by blast
next
  fix c
  assume "trivia_prepare env now aiCache loc = Inr c \<and> callGemini env (tc_prompt c) 200 = None"
  then show "generateWeatherTrivia env now later aiCache loc =
      (\<lparr>status = 200,
        body = TriviaJson (trivia_fallback env (the loc) (tc_weatherData c) (tc_description0 c))
                 (Some (tc_weatherData c))\<rparr>,
       aiCache, [(tc_prompt c, 200)])"
    by (simp add: generateWeatherTrivia_def ok_def)
qed

lemmas example_env_simps = example_env_def example_getWeatherData_def rome_weather_def
  oslo_weather_def example_Number_toString_def example_toFixed1_def gemini_down_def
  gemini_up_def gemini_silent_def

lemmas string_order_simps = less_eq_char_def less_char_def list_le_def list_less_def

theorem provider_failure_falls_back_witness:
  "fst (handleWeatherChat (example_env gemini_down) 1000 1500 [] (Some ''Umbrella today?'')
          (Some [''Rome'', ''Atlantis''])) =
     \<lparr>status = 200,
      body = ChatJson ''I can help with weather questions! You're currently tracking 2 locations. Check your weather widgets for current conditions.''\<rparr> \<and>
   fst (generateWeatherSummary (example_env gemini_down) 1000 1500 []
          (Some [''Rome'', ''Atlantis'', ''Oslo''])) =
     \<lparr>status = 200,
      body = SummaryJson (''Weather Summary: Average temperature across 2 locations is 13.0'' @
               degree @ ''C. Oslo: 4.5'' @ degree @ ''C, light snow. Rome: 21.5'' @ degree @
               ''C, clear sky. '')\<rparr> \<and>
   fst (getLocationSuggestions (example_env gemini_down) 1000 1500 [] None (Some ''hiking'')) =
     \<lparr>status = 200,
      body = SuggestionsJson (''Based on your interests in hiking, here are 5 recommended locations:'' @
               newline @ newline @ canned_suggestions)\<rparr> \<and>
   fst (generateWeatherTrivia (example_env gemini_down) 1000 1500 [] (Some ''Oslo'')) =
     \<lparr>status = 200,
      body = TriviaJson (''Oslo is currently experiencing light snow at 4.5'' @ degree @
               ''C. Did you know that weather patterns can vary significantly even within the same city due to local geography and urban heat effects?'')
               (Some oslo_weather)\<rparr>"
proof -
  let ?E = "example_env gemini_down"
  note falls_back = provider_failure_falls_back [where env = ?E and now = 1000 and later = 1500
      and aiCache = "[]"]
  have down: "callGemini ?E p n = None" for p n
    by (simp add: example_env_simps)
  obtain k1 p1 where chat: "chat_prepare ?E 1000 [] (Some ''Umbrella today?'')
      (Some [''Rome'', ''Atlantis'']) = Inr (k1, p1)"
    by (simp add: chat_prepare_def chat_cacheKey_def getCachedResponse_def Map_get_def truthy_def
        chat_weatherContext_def chat_entry_def example_env_simps Let_def)
  from falls_back [of "Some ''Umbrella today?''" "Some [''Rome'', ''Atlantis'']"] chat down
  have "handleWeatherChat ?E 1000 1500 [] (Some ''Umbrella today?'') (Some [''Rome'', ''Atlantis'']) =
      (\<lparr>status = 200, body = ChatJson (chat_fallback ?E (Some [''Rome'', ''Atlantis'']))\<rparr>, [],
       [(p1, 200)])"
    by blast
  then have r1: "fst (handleWeatherChat ?E 1000 1500 [] (Some ''Umbrella today?'')
        (Some [''Rome'', ''Atlantis''])) =
      \<lparr>status = 200,
       body = ChatJson ''I can help with weather questions! You're currently tracking 2 locations. Check your weather widgets for current conditions.''\<rparr>"
    by (simp add: chat_fallback_def example_env_simps)
  have sorted: "sort [''Rome'', ''Atlantis'', ''Oslo''] = [''Atlantis'', ''Oslo'', ''Rome'']"
    by (simp add: string_order_simps)
  obtain c where summary: "summary_prepare ?E 1000 [] (Some [''Rome'', ''Atlantis'', ''Oslo'']) = Inr c"
    and ws: "sc_weatherSummary c =
      ''Oslo: 4.5'' @ degree @ ''C, light snow. Rome: 21.5'' @ degree @ ''C, clear sky. ''"
    and rs: "sc_weatherResults c = [None, Some oslo_weather, Some rome_weather]"
    and n: "sc_successfulResults c = 2"
    by (simp add: summary_prepare_def summary_cacheKey_def getCachedResponse_def Map_get_def
        truthy_def sorted summary_entry_def example_env_simps Let_def)
  from falls_back [where locations = "Some [''Rome'', ''Atlantis'', ''Oslo'']"] summary down
  have "generateWeatherSummary ?E 1000 1500 [] (Some [''Rome'', ''Atlantis'', ''Oslo'']) =
      (\<lparr>status = 200, body = SummaryJson (summary_fallback ?E c)\<rparr>, [], [(sc_prompt c, 300)])"
    by blast
  then have r2: "fst (generateWeatherSummary ?E 1000 1500 [] (Some [''Rome'', ''Atlantis'', ''Oslo''])) =
      \<lparr>status = 200,
       body = SummaryJson (''Weather Summary: Average temperature across 2 locations is 13.0'' @
                degree @ ''C. Oslo: 4.5'' @ degree @ ''C, light snow. Rome: 21.5'' @ degree @
                ''C, clear sky. '')\<rparr>"
    by (simp add: summary_fallback_def summary_temps_def ws rs n example_env_simps Let_def)
  obtain k3 p3 where sugg: "suggestions_prepare ?E 1000 [] None (Some ''hiking'') = Inr (k3, p3)"
    by (simp add: suggestions_prepare_def suggestions_cacheKey_def getCachedResponse_def Map_get_def truthy_def Let_def)
  from falls_back [where currentLocations = None and interests = "Some ''hiking''"] sugg down
  have r3: "fst (getLocationSuggestions ?E 1000 1500 [] None (Some ''hiking'')) =
      \<lparr>status = 200,
       body = SuggestionsJson (''Based on your interests in hiking, here are 5 recommended locations:'' @
                newline @ newline @ canned_suggestions)\<rparr>"
    by fastforce
  obtain c4 where trivia: "trivia_prepare ?E 1000 [] (Some ''Oslo'') = Inr c4"
    and wd: "tc_weatherData c4 = oslo_weather" and d0: "tc_description0 c4 = ''light snow''"
    by (simp add: trivia_prepare_def trivia_cacheKey_def getCachedResponse_def Map_get_def truthy_def
        example_env_simps Let_def)
  from falls_back [where loc = "Some ''Oslo''"] trivia down
  have "generateWeatherTrivia ?E 1000 1500 [] (Some ''Oslo'') =
      (\<lparr>status = 200,
        body = TriviaJson (trivia_fallback ?E (the (Some ''Oslo'')) (tc_weatherData c4) (tc_description0 c4))
                 (Some (tc_weatherData c4))\<rparr>,
       [], [(tc_prompt c4, 200)])"
    by blast
  then have r4: "fst (generateWeatherTrivia ?E 1000 1500 [] (Some ''Oslo'')) =
      \<lparr>status = 200,
       body = TriviaJson (''Oslo is currently experiencing light snow at 4.5'' @ degree @
                ''C. Did you know that weather patterns can vary significantly even within the same city due to local geography and urban heat effects?'')
                (Some oslo_weather)\<rparr>"
    by (simp add: trivia_fallback_def wd d0 example_env_simps)
  from r1 r2 r3 r4 show ?thesis
    by blast
qed

section \<open>The AI handlers: a weather lookup that fails\<close>

lemma those_map_Some:
  "(\<forall>x \<in> set xs. f x = Some (g x)) \<Longrightarrow> those (map f xs) = Some (map g xs)"
  by (induction xs) simp_all

lemma summary_text_zip:
  "summary_text env (zip locs (map (getWeatherData env) locs)) =
     concat (map (\<lambda>l. case getWeatherData env l of
                          None \<Rightarrow> []
                        | Some d \<Rightarrow> summary_entry env l d (hd (weather d))) locs)"
  by (simp add: summary_text_def zip_map_self comp_def)

text \<open>
  Claim C2, as the code has it. Take a request with a non-empty list of locations whose
  successful lookups each carry a weather element, and no cached answer. In the chat
  handler a location whose lookup fails contributes the entry "<location>: Weather data
  unavailable" and the handler goes on to the provider, also when every lookup fails. In
  the summary handler a location whose lookup fails contributes nothing to the context;
  the handler goes on to the provider when some lookup succeeded, and when every lookup
  fails it answers 400 "No weather data available for provided locations", calls no
  provider and leaves the cache as it was.
\<close>

theorem failed_lookup_in_context:
  assumes wf: "\<forall>l \<in> set locs. \<forall>d. getWeatherData env l = Some d \<longrightarrow> weather d \<noteq> []"
    and locs: "locs \<noteq> []"
  shows
    "(q \<noteq> [] \<and> \<not> truthy (getCachedResponse now aiCache (chat_cacheKey env q (Some locs))) \<longrightarrow>
        chat_prepare env now aiCache (Some q) (Some locs) =
          Inr (chat_cacheKey env q (Some locs),
               chat_prompt q
                 (join ''. ''
                    (map (\<lambda>l. case getWeatherData env l of
                                None \<Rightarrow> l @ '': Weather data unavailable''
                              | Some d \<Rightarrow>
                                  l @ '': '' @ Number_toString env (main_temp d) @ degree @ ''C, '' @
                                  hd (weather d) @ '', humidity '' @
                                  Number_toString env (main_humidity d) @ ''%'')
                       locs)))) \<and>
     (\<not> truthy (getCachedResponse now aiCache (summary_cacheKey env locs)) \<longrightarrow>
        (if \<forall>l \<in> set locs. getWeatherData env l = None
         then generateWeatherSummary env now later aiCache (Some locs) =
                (\<lparr>status = 400,
                  body = ErrorJson ''No weather data available for provided locations''\<rparr>,
                 aiCache, [])
         else \<exists>c. summary_prepare env now aiCache (Some locs) = Inr c \<and>
                sc_weatherSummary c =
                  concat (map (\<lambda>l. case getWeatherData env l of
                                       None \<Rightarrow> []
                                     | Some d \<Rightarrow> summary_entry env l d (hd (weather d)))
                            (sort locs))))"
proof (intro conjI impI)
  let ?line = "\<lambda>l. case getWeatherData env l of
      None \<Rightarrow> l @ '': Weather data unavailable''
    | Some d \<Rightarrow> l @ '': '' @ Number_toString env (main_temp d) @ degree @ ''C, '' @
        hd (weather d) @ '', humidity '' @ Number_toString env (main_humidity d) @ ''%''"
  assume a: "q \<noteq> [] \<and> \<not> truthy (getCachedResponse now aiCache (chat_cacheKey env q (Some locs)))"
  have "chat_entry env (l, getWeatherData env l) = Some (?line l)" if "l \<in> set locs" for l
    using wf that by (cases "getWeatherData env l") (auto simp: chat_entry_def split: list.splits)
  then have "those (map (\<lambda>l. chat_entry env (l, getWeatherData env l)) locs) = Some (map ?line locs)"
    by (intro those_map_Some) simp
  then have "chat_weatherContext env (Some locs) = Some (join ''. '' (map ?line locs))"
    using locs by (simp add: chat_weatherContext_def zip_map_self comp_def)
  with a show "chat_prepare env now aiCache (Some q) (Some locs) =
      Inr (chat_cacheKey env q (Some locs), chat_prompt q (join ''. '' (map ?line locs)))"
    by (simp add: chat_prepare_def Let_def)
next
  let ?rs = "map (getWeatherData env) (sort locs)"
  let ?ps = "zip (sort locs) ?rs"
  assume miss: "\<not> truthy (getCachedResponse now aiCache (summary_cacheKey env locs))"
  have "\<forall>p \<in> set ?ps. \<forall>d. snd p = Some d \<longrightarrow> weather d \<noteq> []"
    using wf unfolding zip_map_self by auto
  from summary_forEach_total [OF this, of env "([], 0)"]
  obtain ws n where loop: "summary_forEach env ?ps ([], 0) = Some (ws, n)"
    by auto
  from summary_forEach_Some [OF loop] have ws: "ws = summary_text env ?ps"
    by simp
  have empty_iff: "ws = [] \<longleftrightarrow> (\<forall>l \<in> set locs. getWeatherData env l = None)"
    unfolding ws summary_text_empty_iff zip_map_self by auto
  show "if \<forall>l \<in> set locs. getWeatherData env l = None
     then generateWeatherSummary env now later aiCache (Some locs) =
            (\<lparr>status = 400, body = ErrorJson ''No weather data available for provided locations''\<rparr>,
             aiCache, [])
     else \<exists>c. summary_prepare env now aiCache (Some locs) = Inr c \<and>
            sc_weatherSummary c =
              concat (map (\<lambda>l. case getWeatherData env l of
                                   None \<Rightarrow> []
                                 | Some d \<Rightarrow> summary_entry env l d (hd (weather d)))
                        (sort locs))"
  proof (cases "\<forall>l \<in> set locs. getWeatherData env l = None")
    case True
    with empty_iff have "ws = []" by simp
    with loop miss locs
    have "summary_prepare env now aiCache (Some locs) =
        Inl (fail 400 ''No weather data available for provided locations'')"
      by (simp add: summary_prepare_def Let_def)
    then have "generateWeatherSummary env now later aiCache (Some locs) =
        (\<lparr>status = 400, body = ErrorJson ''No weather data available for provided locations''\<rparr>,
         aiCache, [])"
      by (simp add: generateWeatherSummary_def fail_def)
    then show ?thesis
      unfolding if_P [OF True] .
  next
    case False
    with empty_iff have "ws \<noteq> []" by simp
    with loop miss locs
    have "\<exists>c. summary_prepare env now aiCache (Some locs) = Inr c \<and> sc_weatherSummary c = ws"
      by (simp add: summary_prepare_def Let_def)
    then have "\<exists>c. summary_prepare env now aiCache (Some locs) = Inr c \<and>
        sc_weatherSummary c =
          concat (map (\<lambda>l. case getWeatherData env l of
                               None \<Rightarrow> []
                             | Some d \<Rightarrow> summary_entry env l d (hd (weather d)))
                    (sort locs))"
      using ws summary_text_zip [of env "sort locs"] by simp
    then show ?thesis
      unfolding if_not_P [OF False] .
  qed
qed

theorem failed_lookup_in_context_witness:
  "fst (handleWeatherChat (example_env gemini_up) 1000 1500 [] (Some ''Umbrella today?'')
          (Some [''Atlantis''])) =
     \<lparr>status = 200, body = ChatJson ''Sunny spells.''\<rparr> \<and>
   snd (snd (handleWeatherChat (example_env gemini_up) 1000 1500 [] (Some ''Umbrella today?'')
          (Some [''Atlantis'']))) =
     [(chat_prompt ''Umbrella today?'' ''Atlantis: Weather data unavailable'', 200)] \<and>
   generateWeatherSummary (example_env gemini_up) 1000 1500 [] (Some [''Atlantis'']) =
     (\<lparr>status = 400, body = ErrorJson ''No weather data available for provided locations''\<rparr>, [], []) \<and>
   (\<exists>c. summary_prepare (example_env gemini_up) 1000 [] (Some [''Rome'', ''Atlantis'']) = Inr c \<and>
        sc_weatherSummary c = ''Rome: 21.5'' @ degree @ ''C, clear sky. '')"
proof -
  let ?E = "example_env gemini_up"
  have wf: "\<forall>l \<in> set ls. \<forall>d. getWeatherData ?E l = Some d \<longrightarrow> weather d \<noteq> []" for ls
    by (auto simp: example_env_simps split: if_splits)
  have miss: "\<not> truthy (getCachedResponse 1000 [] k)" for k
    by (simp add: getCachedResponse_def Map_get_def truthy_def)
  have none: "\<forall>l \<in> set [''Atlantis'']. getWeatherData ?E l = None"
    by (simp add: example_env_simps)
  have some: "\<not> (\<forall>l \<in> set [''Rome'', ''Atlantis'']. getWeatherData ?E l = None)"
    by (simp add: example_env_simps)
  have sorted: "sort [''Rome'', ''Atlantis''] = [''Atlantis'', ''Rome'']"
    by (simp add: string_order_simps)
  from failed_lookup_in_context [OF wf, of "[''Atlantis'']" "''Umbrella today?''" 1000 "[]" 1500] miss none
  have chat: "chat_prepare ?E 1000 [] (Some ''Umbrella today?'') (Some [''Atlantis'']) =
          Inr (chat_cacheKey ?E ''Umbrella today?'' (Some [''Atlantis'']),
               chat_prompt ''Umbrella today?'' ''Atlantis: Weather data unavailable'')"
    and summary: "generateWeatherSummary ?E 1000 1500 [] (Some [''Atlantis'']) =
      (\<lparr>status = 400, body = ErrorJson ''No weather data available for provided locations''\<rparr>, [], [])"
    by (simp_all add: example_env_simps)
  from failed_lookup_in_context [OF wf, of "[''Rome'', ''Atlantis'']" "''Umbrella today?''" 1000 "[]" 1500]
    miss some
  have partial: "\<exists>c. summary_prepare ?E 1000 [] (Some [''Rome'', ''Atlantis'']) = Inr c \<and>
      sc_weatherSummary c = ''Rome: 21.5'' @ degree @ ''C, clear sky. ''"
    by (simp add: sorted summary_entry_def example_env_simps)
  from chat have "handleWeatherChat ?E 1000 1500 [] (Some ''Umbrella today?'') (Some [''Atlantis'']) =
      (\<lparr>status = 200, body = ChatJson ''Sunny spells.''\<rparr>,
       setCachedResponse 1500 [] (chat_cacheKey ?E ''Umbrella today?'' (Some [''Atlantis''])) ''Sunny spells.'',
       [(chat_prompt ''Umbrella today?'' ''Atlantis: Weather data unavailable'', 200)])"
    by (simp add: handleWeatherChat_def ok_def example_env_simps)
  with summary partial show ?thesis
    by simp
qed

text \<open>
  The claim as it is written fails for the summary: with the one location unknown to the
  weather provider the handler answers 400 and calls no provider, and with one location
  known and one unknown the context has no entry for the unknown one.
\<close>

theorem summary_lookup_failure_counterexample:
  "generateWeatherSummary (example_env gemini_up) 1000 1500 [] (Some [''Atlantis'']) =
     (\<lparr>status = 400, body = ErrorJson ''No weather data available for provided locations''\<rparr>, [], []) \<and>
   snd (snd (generateWeatherSummary (example_env gemini_up) 1000 1500 []
               (Some [''Rome'', ''Atlantis'']))) =
     [(summary_prompt (''Rome: 21.5'' @ degree @ ''C, clear sky. ''), 300)]"
proof -
  have sorted: "sort [''Rome'', ''Atlantis''] = [''Atlantis'', ''Rome'']"
    by (simp add: string_order_simps)
  have "generateWeatherSummary (example_env gemini_up) 1000 1500 [] (Some [''Atlantis'']) =
     (\<lparr>status = 400, body = ErrorJson ''No weather data available for provided locations''\<rparr>, [], [])"
    by (simp add: generateWeatherSummary_def summary_prepare_def summary_cacheKey_def
        getCachedResponse_def Map_get_def truthy_def fail_def example_env_simps Let_def)
  moreover have "snd (snd (generateWeatherSummary (example_env gemini_up) 1000 1500 []
               (Some [''Rome'', ''Atlantis'']))) =
     [(summary_prompt (''Rome: 21.5'' @ degree @ ''C, clear sky. ''), 300)]"
    by (simp add: generateWeatherSummary_def summary_prepare_def summary_cacheKey_def
        getCachedResponse_def Map_get_def truthy_def sorted summary_entry_def
        example_env_simps Let_def)
  ultimately show ?thesis
    by blast
qed

section \<open>The AI handlers: the trivia served from the cache\<close>

text \<open>
  Claim C3 at a concrete input. The first request for the trivia of Rome reaches the
  provider, stores its text and answers with the text and the weather data; the second
  request, one second later, is served from the cache and its body holds the text alone:
  the weather data is absent.
\<close>

theorem cached_trivia_lacks_weather:
  "generateWeatherTrivia (example_env gemini_up) 1000 1500 [] (Some ''Rome'') =
     (\<lparr>status = 200, body = TriviaJson ''Sunny spells.'' (Some rome_weather)\<rparr>,
      [(''trivia-'' @ dquote @ ''Rome'' @ dquote, \<lparr>ai_data = ''Sunny spells.'', ai_timestamp = 1500\<rparr>)],
      [(trivia_prompt (example_env gemini_up) ''Rome'' rome_weather ''clear sky'', 200)]) \<and>
   generateWeatherTrivia (example_env gemini_up) 2000 2500
       [(''trivia-'' @ dquote @ ''Rome'' @ dquote, \<lparr>ai_data = ''Sunny spells.'', ai_timestamp = 1500\<rparr>)]
       (Some ''Rome'') =
     (\<lparr>status = 200, body = TriviaJson ''Sunny spells.'' None\<rparr>,
      [(''trivia-'' @ dquote @ ''Rome'' @ dquote, \<lparr>ai_data = ''Sunny spells.'', ai_timestamp = 1500\<rparr>)],
      [])"
proof -
  have first: "generateWeatherTrivia (example_env gemini_up) 1000 1500 [] (Some ''Rome'') =
     (\<lparr>status = 200, body = TriviaJson ''Sunny spells.'' (Some rome_weather)\<rparr>,
      [(''trivia-'' @ dquote @ ''Rome'' @ dquote, \<lparr>ai_data = ''Sunny spells.'', ai_timestamp = 1500\<rparr>)],
      [(trivia_prompt (example_env gemini_up) ''Rome'' rome_weather ''clear sky'', 200)])"
    by (simp add: generateWeatherTrivia_def trivia_prepare_def trivia_cacheKey_def
        getCacheKey_def getCachedResponse_def Map_get_def truthy_def setCachedResponse_def
        ok_def example_env_def example_getWeatherData_def rome_weather_def gemini_up_def Let_def)
  have second: "generateWeatherTrivia (example_env gemini_up) 2000 2500
       [(''trivia-'' @ dquote @ ''Rome'' @ dquote, \<lparr>ai_data = ''Sunny spells.'', ai_timestamp = 1500\<rparr>)]
       (Some ''Rome'') =
     (\<lparr>status = 200, body = TriviaJson ''Sunny spells.'' None\<rparr>,
      [(''trivia-'' @ dquote @ ''Rome'' @ dquote, \<lparr>ai_data = ''Sunny spells.'', ai_timestamp = 1500\<rparr>)],
      [])"
    by (simp add: generateWeatherTrivia_def trivia_prepare_def trivia_cacheKey_def
        getCacheKey_def getCachedResponse_def Map_get_def truthy_def CACHE_TTL_def ok_def
        example_env_def Let_def)
  from first second show ?thesis
    by blast
qed

section \<open>The AI handlers: the summary's cache key\<close>

lemma sort_mset_eq: "mset xs = mset ys \<Longrightarrow> sort xs = sort (ys :: string list)"
  by (metis properties_for_sort mset_sort sorted_sort)

lemma getCachedResponse_after_set:
  "now - later < CACHE_TTL \<Longrightarrow>
     getCachedResponse now (setCachedResponse later aiCache k s) k = Some s"
  by (simp add: getCachedResponse_def setCachedResponse_def Map_get_set_same)

lemma summary_cached:
  assumes "locs \<noteq> []" and "getCachedResponse now aiCache (summary_cacheKey env locs) = Some s"
    and "s \<noteq> []"
  shows "generateWeatherSummary env now later aiCache (Some locs) =
           (\<lparr>status = 200, body = SummaryJson s\<rparr>, aiCache, [])"
  using assms
  by (simp add: generateWeatherSummary_def summary_prepare_def truthy_def ok_def Let_def)

text \<open>
  Claim C8, as the code has it. Two arrays of locations that are permutations of each other
  have the same cache key. When a request with the first reaches the provider and the
  provider answers with a non-empty text, the handler answers 200 with that text and stores
  it; a request with the second array, made while less than the time to live has passed
  since the text was stored, answers 200 with the stored text, leaves the cache as it is and
  calls no provider, whatever the weather and generative providers would answer then.
\<close>

theorem summary_permutation_cache_hit:
  assumes perm: "mset xs = mset ys"
    and prep: "summary_prepare env now1 aiCache (Some xs) = Inr c"
    and gem: "callGemini env (sc_prompt c) 300 = Some s"
    and nonempty: "s \<noteq> []"
    and ttl: "now2 - later1 < CACHE_TTL"
  shows "summary_cacheKey env xs = summary_cacheKey env ys \<and>
         (\<exists>cache1.
            generateWeatherSummary env now1 later1 aiCache (Some xs) =
              (\<lparr>status = 200, body = SummaryJson s\<rparr>, cache1, [(sc_prompt c, 300)]) \<and>
            (\<forall>w g later2.
               generateWeatherSummary (env\<lparr>getWeatherData := w, callGemini := g\<rparr>) now2 later2 cache1
                   (Some ys) =
                 (\<lparr>status = 200, body = SummaryJson s\<rparr>, cache1, [])))"
proof -
  let ?cache1 = "setCachedResponse later1 aiCache (sc_cacheKey c) s"
  have key: "summary_cacheKey env xs = summary_cacheKey env ys"
    using sort_mset_eq [OF perm] by (simp add: summary_cacheKey_def)
  from summary_prepare_Inr [OF prep] have xs: "xs \<noteq> []" and kc: "sc_cacheKey c = summary_cacheKey env xs"
    by auto
  from xs perm have ys: "ys \<noteq> []"
    by auto
  have first: "generateWeatherSummary env now1 later1 aiCache (Some xs) =
      (\<lparr>status = 200, body = SummaryJson s\<rparr>, ?cache1, [(sc_prompt c, 300)])"
    using prep gem by (simp add: generateWeatherSummary_def ok_def)
  have second: "generateWeatherSummary (env\<lparr>getWeatherData := w, callGemini := g\<rparr>) now2 later2 ?cache1
      (Some ys) = (\<lparr>status = 200, body = SummaryJson s\<rparr>, ?cache1, [])" for w g later2
  proof -
    have "summary_cacheKey (env\<lparr>getWeatherData := w, callGemini := g\<rparr>) ys = sc_cacheKey c"
      using key kc by (simp add: summary_cacheKey_def getCacheKey_def)
    then have "getCachedResponse now2 ?cache1
        (summary_cacheKey (env\<lparr>getWeatherData := w, callGemini := g\<rparr>) ys) = Some s"
      using getCachedResponse_after_set [OF ttl] by simp
    from summary_cached [OF ys this nonempty] show ?thesis .
  qed
  from key first second show ?thesis
    by blast
qed

theorem summary_permutation_cache_hit_witness:
  "mset [''Oslo'', ''Rome''] = mset [''Rome'', ''Oslo''] \<and>
   summary_cacheKey (example_env gemini_up) [''Oslo'', ''Rome''] =
     summary_cacheKey (example_env gemini_up) [''Rome'', ''Oslo''] \<and>
   (\<exists>cache1.
      fst (snd (generateWeatherSummary (example_env gemini_up) 1000 1500 [] (Some [''Oslo'', ''Rome'']))) =
        cache1 \<and>
      generateWeatherSummary (example_env gemini_down) 2000 2500 cache1 (Some [''Rome'', ''Oslo'']) =
        (\<lparr>status = 200, body = SummaryJson ''Sunny spells.''\<rparr>, cache1, []))"
proof -
  let ?E = "example_env gemini_up"
  have perm: "mset [''Oslo'', ''Rome''] = mset [''Rome'', ''Oslo'']"
    by (simp add: add.commute)
  have sorted: "sort [''Oslo'', ''Rome''] = [''Oslo'', ''Rome'']"
    by (simp add: string_order_simps)
  obtain c where prep: "summary_prepare ?E 1000 [] (Some [''Oslo'', ''Rome'']) = Inr c"
    by (simp add: summary_prepare_def summary_cacheKey_def getCachedResponse_def Map_get_def
        truthy_def sorted summary_entry_def example_env_simps Let_def)
  have gem: "callGemini ?E (sc_prompt c) 300 = Some ''Sunny spells.''"
    by (simp add: example_env_simps)
  have ttl: "(2000::int) - 1500 < CACHE_TTL"
    by (simp add: CACHE_TTL_def)
  have down: "?E\<lparr>getWeatherData := example_getWeatherData, callGemini := gemini_down\<rparr> =
      example_env gemini_down"
    by (simp add: example_env_def)
  from summary_permutation_cache_hit [OF perm prep gem _ ttl]
  obtain cache1 where key: "summary_cacheKey ?E [''Oslo'', ''Rome''] = summary_cacheKey ?E [''Rome'', ''Oslo'']"
    and first: "generateWeatherSummary ?E 1000 1500 [] (Some [''Oslo'', ''Rome'']) =
      (\<lparr>status = 200, body = SummaryJson ''Sunny spells.''\<rparr>, cache1, [(sc_prompt c, 300)])"
    and second: "\<And>w g later2.
      generateWeatherSummary (?E\<lparr>getWeatherData := w, callGemini := g\<rparr>) 2000 later2 cache1
        (Some [''Rome'', ''Oslo'']) = (\<lparr>status = 200, body = SummaryJson ''Sunny spells.''\<rparr>, cache1, [])"
    by auto
  have "generateWeatherSummary
      (?E\<lparr>getWeatherData := example_getWeatherData, callGemini := gemini_down\<rparr>) 2000 2500 cache1
      (Some [''Rome'', ''Oslo'']) = (\<lparr>status = 200, body = SummaryJson ''Sunny spells.''\<rparr>, cache1, [])"
    by (rule second)
  then have "generateWeatherSummary (example_env gemini_down) 2000 2500 cache1 (Some [''Rome'', ''Oslo'']) =
      (\<lparr>status = 200, body = SummaryJson ''Sunny spells.''\<rparr>, cache1, [])"
    unfolding down .
  with perm key first show ?thesis
    by simp
qed

text \<open>
  The claim as it is written fails when the provider's answer is the empty text: the text is
  stored, but the handler's test of the cached value takes the empty string for a miss, and
  the second request, with the same locations in another order and one second later, calls
  the provider again.
\<close>

theorem summary_empty_text_counterexample:
  "generateWeatherSummary (example_env gemini_silent) 1000 1500 [] (Some [''Oslo'', ''Rome'']) =
     (\<lparr>status = 200, body = SummaryJson []\<rparr>,
      [(summary_cacheKey (example_env gemini_silent) [''Oslo'', ''Rome''],
        \<lparr>ai_data = [], ai_timestamp = 1500\<rparr>)],
      [(summary_prompt (''Oslo: 4.5'' @ degree @ ''C, light snow. Rome: 21.5'' @ degree @
                        ''C, clear sky. ''), 300)]) \<and>
   snd (snd (generateWeatherSummary (example_env gemini_silent) 2000 2500
      [(summary_cacheKey (example_env gemini_silent) [''Oslo'', ''Rome''],
        \<lparr>ai_data = [], ai_timestamp = 1500\<rparr>)]
      (Some [''Rome'', ''Oslo'']))) =
     [(summary_prompt (''Oslo: 4.5'' @ degree @ ''C, light snow. Rome: 21.5'' @ degree @
                       ''C, clear sky. ''), 300)]"
proof -
  let ?E = "example_env gemini_silent"
  let ?k = "summary_cacheKey ?E [''Oslo'', ''Rome'']"
  have sorted: "sort [''Oslo'', ''Rome''] = [''Oslo'', ''Rome'']"
    "sort [''Rome'', ''Oslo''] = [''Oslo'', ''Rome'']"
    by (simp_all add: string_order_simps)
  have k2: "summary_cacheKey ?E [''Rome'', ''Oslo''] = ?k"
    by (simp add: summary_cacheKey_def sorted)
  have first: "generateWeatherSummary ?E 1000 1500 [] (Some [''Oslo'', ''Rome'']) =
     (\<lparr>status = 200, body = SummaryJson []\<rparr>,
      [(?k, \<lparr>ai_data = [], ai_timestamp = 1500\<rparr>)],
      [(summary_prompt (''Oslo: 4.5'' @ degree @ ''C, light snow. Rome: 21.5'' @ degree @
                        ''C, clear sky. ''), 300)])"
    unfolding generateWeatherSummary_def summary_prepare_def
    by (simp add: getCachedResponse_def Map_get_def truthy_def sorted summary_entry_def
        setCachedResponse_def ok_def example_env_simps Let_def)
  have second: "snd (snd (generateWeatherSummary ?E 2000 2500
      [(?k, \<lparr>ai_data = [], ai_timestamp = 1500\<rparr>)] (Some [''Rome'', ''Oslo'']))) =
     [(summary_prompt (''Oslo: 4.5'' @ degree @ ''C, light snow. Rome: 21.5'' @ degree @
                       ''C, clear sky. ''), 300)]"
    unfolding generateWeatherSummary_def summary_prepare_def k2
    by (simp add: getCachedResponse_def Map_get_def truthy_def CACHE_TTL_def sorted(2)
        summary_entry_def example_env_simps Let_def)
  from first second show ?thesis
    by blast
qed

section \<open>The widgets: creating\<close>

lemma parse_pattern_plain:
  "plain l \<Longrightarrow> parse_pattern l = Some (map (\<lambda>c. (Lit c, Once)) l)"
proof (induction l rule: parse_pattern.induct)
  case 1
  then show ?case by simp
next
  case (2 c)
  then show ?case by (simp add: plain_def atom_of_def)
next
  case (3 c q rest)
  from "3.prems" have c: "c \<noteq> CHR ''.''" "c \<notin> set quantifier_chars" "c \<notin> set other_syntax_chars"
    and q: "q \<notin> set quantifier_chars" and rest: "plain (q # rest)"
    by (simp_all add: plain_def)
  from "3.IH"(2) c q rest have "parse_pattern (q # rest) = Some (map (\<lambda>c. (Lit c, Once)) (q # rest))"
    by simp
  with c q show ?case
    by (simp add: atom_of_def)
qed

lemma matches_literal:
  "matches (map (\<lambda>c. (Lit c, Once)) l) s \<longleftrightarrow> toLowerCase l = toLowerCase s"
proof (induction l arbitrary: s)
  case Nil
  then show ?case by (simp add: toLowerCase_def)
next
  case (Cons c l)
  then show ?case
    by (cases s) (auto simp: toLowerCase_def match_atom_def)
qed

lemma find_Some_member: "find P xs = Some x \<Longrightarrow> x \<in> set xs \<and> P x"
  by (induction xs) (auto split: if_splits)

text \<open>The handler on a string with a non-empty trimmed form whose pattern is in the fragment.\<close>

lemma createWidget_string:
  assumes "trim s \<noteq> []" and "parse_pattern (trim s) = Some p"
  shows "createWidget newId now store (JString s) =
     (case find (\<lambda>w. matches p (location w)) store of
        Some existingWidget \<Rightarrow>
          Some (\<lparr>code = 409, payload = WidgetAlreadyExists (trim s)\<rparr>, store)
      | None \<Rightarrow>
          (case schema_validate (trim s) of
             Some message \<Rightarrow>
               Some (\<lparr>code = 400, payload = ValidationError (validation_failed message)\<rparr>, store)
           | None \<Rightarrow>
               Some (\<lparr>code = 201,
                      payload = Saved \<lparr>widget_id = newId, location = trim s, createdAt = now,
                                       updatedAt = now\<rparr>\<rparr>,
                     store @ [\<lparr>widget_id = newId, location = trim s, createdAt = now,
                               updatedAt = now\<rparr>])))"
proof -
  from assms(1) have "s \<noteq> []"
    by (auto simp: trim_def)
  with assms show ?thesis
    by (simp add: createWidget_def js_falsy_def Let_def split: option.splits)
qed

text \<open>
  Claim C9, as the code has it. A location that is missing, not a string, empty or only
  white space is answered with 400 and nothing is stored. For an ASCII string whose trimmed
  form has no syntax character of regular expressions, and a collection of widgets with
  ASCII, trimmed locations: the answer is 409 when some stored widget has, up to the case
  of letters, that trimmed location; otherwise the schema checks the trimmed location on
  save, one of fewer than 2 or more than 100 characters is answered with 400 and the
  message of the validation error and nothing is stored, and any other is stored with the
  generated id and the two timestamps and returned with 201.
\<close>

theorem createWidget_responses:
  "((\<forall>s. v \<noteq> JString s) \<or> (\<exists>s. v = JString s \<and> trim s = []) \<longrightarrow>
       createWidget newId now store v =
         Some (\<lparr>code = 400, payload = InvalidInput_LocationRequired\<rparr>, store)) \<and>
   (\<forall>s. v = JString s \<and> is_ascii s \<and> trim s \<noteq> [] \<and> plain (trim s) \<and>
        (\<forall>w \<in> set store. stored_ascii_trimmed w) \<longrightarrow>
       createWidget newId now store v =
         (if \<exists>w \<in> set store. toLowerCase (location w) = toLowerCase (trim s)
          then Some (\<lparr>code = 409, payload = WidgetAlreadyExists (trim s)\<rparr>, store)
          else if length (trim s) < 2
          then Some (\<lparr>code = 400,
                      payload = ValidationError
                        ''Widget validation failed: location: Location must be at least 2 characters long''\<rparr>,
                     store)
          else if length (trim s) > 100
          then Some (\<lparr>code = 400,
                      payload = ValidationError
                        ''Widget validation failed: location: Location must be less than 100 characters''\<rparr>,
                     store)
          else Some (\<lparr>code = 201,
                      payload = Saved \<lparr>widget_id = newId, location = trim s, createdAt = now,
                                       updatedAt = now\<rparr>\<rparr>,
                     store @ [\<lparr>widget_id = newId, location = trim s, createdAt = now,
                               updatedAt = now\<rparr>])))"
proof (intro conjI allI impI)
  assume "(\<forall>s. v \<noteq> JString s) \<or> (\<exists>s. v = JString s \<and> trim s = [])"
  then show "createWidget newId now store v =
      Some (\<lparr>code = 400, payload = InvalidInput_LocationRequired\<rparr>, store)"
    by (cases v) (auto simp: createWidget_def)
next
  fix s
  assume a: "v = JString s \<and> is_ascii s \<and> trim s \<noteq> [] \<and> plain (trim s) \<and>
      (\<forall>w \<in> set store. stored_ascii_trimmed w)"
  let ?lits = "map (\<lambda>c. (Lit c, Once)) (trim s)"
  from a have v: "v = JString s" and t: "trim s \<noteq> []"
    by simp_all
  from a have p: "parse_pattern (trim s) = Some ?lits"
    by (simp add: parse_pattern_plain)
  note unfolded = createWidget_string [OF t p, of newId now store]
  show "createWidget newId now store v =
         (if \<exists>w \<in> set store. toLowerCase (location w) = toLowerCase (trim s)
          then Some (\<lparr>code = 409, payload = WidgetAlreadyExists (trim s)\<rparr>, store)
          else if length (trim s) < 2
          then Some (\<lparr>code = 400,
                      payload = ValidationError
                        ''Widget validation failed: location: Location must be at least 2 characters long''\<rparr>,
                     store)
          else if length (trim s) > 100
          then Some (\<lparr>code = 400,
                      payload = ValidationError
                        ''Widget validation failed: location: Location must be less than 100 characters''\<rparr>,
                     store)
          else Some (\<lparr>code = 201,
                      payload = Saved \<lparr>widget_id = newId, location = trim s, createdAt = now,
                                       updatedAt = now\<rparr>\<rparr>,
                     store @ [\<lparr>widget_id = newId, location = trim s, createdAt = now,
                               updatedAt = now\<rparr>]))"
  proof (cases "find (\<lambda>w. matches ?lits (location w)) store")
    case None
    then have "\<not> (\<exists>w \<in> set store. toLowerCase (location w) = toLowerCase (trim s))"
      by (auto simp: find_None_iff matches_literal)
    with None v show ?thesis
      unfolding v unfolded
      by (simp add: schema_validate_def validation_failed_def)
  next
    case (Some w)
    then have "w \<in> set store \<and> toLowerCase (location w) = toLowerCase (trim s)"
      using find_Some_member [OF Some] by (simp add: matches_literal)
    then have "\<exists>w \<in> set store. toLowerCase (location w) = toLowerCase (trim s)"
      by blast
    with Some show ?thesis
      unfolding v unfolded by simp
  qed
qed

theorem createWidget_responses_witness:
  "createWidget ''w2'' 2000 [paris] JUndefined =
     Some (\<lparr>code = 400, payload = InvalidInput_LocationRequired\<rparr>, [paris]) \<and>
   createWidget ''w2'' 2000 [paris] (JNumber 7) =
     Some (\<lparr>code = 400, payload = InvalidInput_LocationRequired\<rparr>, [paris]) \<and>
   createWidget ''w2'' 2000 [paris] (JString ''   '') =
     Some (\<lparr>code = 400, payload = InvalidInput_LocationRequired\<rparr>, [paris]) \<and>
   is_ascii ''  paris  '' \<and> stored_ascii_trimmed paris \<and>
   createWidget ''w2'' 2000 [paris] (JString ''  paris  '') =
     Some (\<lparr>code = 409, payload = WidgetAlreadyExists ''paris''\<rparr>, [paris]) \<and>
   createWidget ''w2'' 2000 [paris] (JString '' X '') =
     Some (\<lparr>code = 400,
            payload = ValidationError
              ''Widget validation failed: location: Location must be at least 2 characters long''\<rparr>,
           [paris]) \<and>
   createWidget ''w2'' 2000 [paris] (JString '' Oslo'') =
     Some (\<lparr>code = 201,
            payload = Saved \<lparr>widget_id = ''w2'', location = ''Oslo'', createdAt = 2000,
                             updatedAt = 2000\<rparr>\<rparr>,
           [paris, \<lparr>widget_id = ''w2'', location = ''Oslo'', createdAt = 2000, updatedAt = 2000\<rparr>])"
proof -
  have t: "trim ''   '' = []" "trim ''  paris  '' = ''paris''" "trim '' X '' = ''X''"
    "trim '' Oslo'' = ''Oslo''"
    by (simp_all add: trim_def isWhiteSpace_def)
  have pl: "plain ''paris''" "plain ''X''" "plain ''Oslo''"
    by (simp_all add: plain_def quantifier_chars_def other_syntax_chars_def)
  have asc: "is_ascii ''  paris  ''" "is_ascii '' X ''" "is_ascii '' Oslo''"
    by (simp_all add: is_ascii_def less_eq_char_def)
  have st: "stored_ascii_trimmed paris"
    by (simp add: stored_ascii_trimmed_def paris_def is_ascii_def less_eq_char_def trim_def
        isWhiteSpace_def)
  then have store: "\<forall>w \<in> set [paris]. stored_ascii_trimmed w"
    by simp
  have low: "toLowerCase ''Paris'' = ''paris''" "toLowerCase ''paris'' = ''paris''"
    "toLowerCase ''Oslo'' = ''oslo''" "toLowerCase ''X'' = ''x''"
    by (simp_all add: toLowerCase_def lower_char_def)
  note r = createWidget_responses [where newId = "''w2''" and now = 2000 and store = "[paris]"]
  from r [of JUndefined]
  have r1: "createWidget ''w2'' 2000 [paris] JUndefined =
      Some (\<lparr>code = 400, payload = InvalidInput_LocationRequired\<rparr>, [paris])"
    by simp
  from r [of "JNumber 7"]
  have r2: "createWidget ''w2'' 2000 [paris] (JNumber 7) =
      Some (\<lparr>code = 400, payload = InvalidInput_LocationRequired\<rparr>, [paris])"
    by simp
  from r [of "JString ''   ''"] t(1)
  have r3: "createWidget ''w2'' 2000 [paris] (JString ''   '') =
      Some (\<lparr>code = 400, payload = InvalidInput_LocationRequired\<rparr>, [paris])"
    by simp
  from r [of "JString ''  paris  ''"] t(2) pl(1) asc(1) store low
  have r4: "createWidget ''w2'' 2000 [paris] (JString ''  paris  '') =
      Some (\<lparr>code = 409, payload = WidgetAlreadyExists ''paris''\<rparr>, [paris])"
    by (simp add: paris_def)
  from r [of "JString '' X ''"] t(3) pl(2) asc(2) store low
  have r5: "createWidget ''w2'' 2000 [paris] (JString '' X '') =
      Some (\<lparr>code = 400,
             payload = ValidationError
               ''Widget validation failed: location: Location must be at least 2 characters long''\<rparr>,
            [paris])"
    by (simp add: paris_def)
  from r [of "JString '' Oslo''"] t(4) pl(3) asc(3) store low
  have r6: "createWidget ''w2'' 2000 [paris] (JString '' Oslo'') =
      Some (\<lparr>code = 201,
             payload = Saved \<lparr>widget_id = ''w2'', location = ''Oslo'', createdAt = 2000,
                              updatedAt = 2000\<rparr>\<rparr>,
            [paris, \<lparr>widget_id = ''w2'', location = ''Oslo'', createdAt = 2000, updatedAt = 2000\<rparr>])"
    by (simp add: paris_def)
  from r1 r2 r3 asc(1) st r4 r5 r6 show ?thesis
    by blast
qed

text \<open>
  The claim as it is written fails on a location of one character: it is a non-empty
  string and no widget is stored, yet the answer is 400 with the validation error of the
  schema and not 201, and nothing is stored.
\<close>

theorem createWidget_short_location_counterexample:
  "createWidget ''w1'' 1000 [] (JString ''X'') =
     Some (\<lparr>code = 400,
            payload = ValidationError
              ''Widget validation failed: location: Location must be at least 2 characters long''\<rparr>,
           [])"
  by (simp add: createWidget_def js_falsy_def trim_def isWhiteSpace_def
      quantifier_chars_def other_syntax_chars_def atom_of_def schema_validate_def
      validation_failed_def)

section \<open>The widgets: the duplicate check is a regular expression\<close>

text \<open>
  Claim C10. The duplicate check is the match of the pattern built from the trimmed
  location, taken as it is, against the whole of a stored location: for a string with a
  non-empty trimmed form whose pattern is read as \<open>p\<close>, the answer is 409 exactly when
  \<open>p\<close> matches the location of some stored widget. So with "Paris" stored, "Pari." is
  answered with 409 although the two differ also when case is ignored; and with "a+b"
  stored, the pattern of "a+b" does not match the text "a+b", and a second widget "a+b" is
  stored and answered with 201.
\<close>

theorem duplicate_check_is_regex_match:
  "(\<forall>s p. trim s \<noteq> [] \<and> parse_pattern (trim s) = Some p \<longrightarrow>
      (\<exists>r. createWidget newId now store (JString s) = Some r \<and>
           (code (fst r) = 409 \<longleftrightarrow> (\<exists>w \<in> set store. matches p (location w))))) \<and>
   createWidget ''w2'' 2000 [paris] (JString ''Pari.'') =
     Some (\<lparr>code = 409, payload = WidgetAlreadyExists ''Pari.''\<rparr>, [paris]) \<and>
   toLowerCase ''Pari.'' \<noteq> toLowerCase (location paris) \<and>
   parse_pattern ''a+b'' = Some [(Lit CHR ''a'', Plus), (Lit CHR ''b'', Once)] \<and>
   \<not> matches [(Lit CHR ''a'', Plus), (Lit CHR ''b'', Once)] ''a+b'' \<and>
   createWidget ''w2'' 2000 [a_plus_b] (JString ''a+b'') =
     Some (\<lparr>code = 201,
            payload = Saved \<lparr>widget_id = ''w2'', location = ''a+b'', createdAt = 2000,
                             updatedAt = 2000\<rparr>\<rparr>,
           [a_plus_b, \<lparr>widget_id = ''w2'', location = ''a+b'', createdAt = 2000, updatedAt = 2000\<rparr>])"
proof -
  have general: "\<exists>r. createWidget newId now store (JString s) = Some r \<and>
      (code (fst r) = 409 \<longleftrightarrow> (\<exists>w \<in> set store. matches p (location w)))"
    if "trim s \<noteq> [] \<and> parse_pattern (trim s) = Some p" for s p
  proof (cases "find (\<lambda>w. matches p (location w)) store")
    case None
    then have "\<not> (\<exists>w \<in> set store. matches p (location w))"
      by (auto simp: find_None_iff)
    with None that show ?thesis
      by (cases "schema_validate (trim s)") (simp_all add: createWidget_string)
  next
    case (Some w)
    then have "\<exists>w \<in> set store. matches p (location w)"
      using find_Some_member [OF Some] by blast
    with Some that show ?thesis
      by (simp add: createWidget_string)
  qed
  have tr: "trim ''Pari.'' = ''Pari.''" "trim ''a+b'' = ''a+b''"
    by (simp_all add: trim_def isWhiteSpace_def)
  have pp: "parse_pattern ''Pari.'' =
      Some [(Lit CHR ''P'', Once), (Lit CHR ''a'', Once), (Lit CHR ''r'', Once),
            (Lit CHR ''i'', Once), (AnyChar, Once)]"
    by (simp add: quantifier_chars_def other_syntax_chars_def atom_of_def)
  have pq: "parse_pattern ''a+b'' = Some [(Lit CHR ''a'', Plus), (Lit CHR ''b'', Once)]"
    by (simp add: quantifier_chars_def other_syntax_chars_def atom_of_def quantifier_of_def)
  have m1: "matches [(Lit CHR ''P'', Once), (Lit CHR ''a'', Once), (Lit CHR ''r'', Once),
            (Lit CHR ''i'', Once), (AnyChar, Once)] ''Paris''"
    by (simp add: match_atom_def)
  have m2: "\<not> matches [(Lit CHR ''a'', Plus), (Lit CHR ''b'', Once)] ''a+b''"
    by (simp add: match_atom_def lower_char_def)
  have f1: "find (\<lambda>w. matches [(Lit CHR ''P'', Once), (Lit CHR ''a'', Once), (Lit CHR ''r'', Once),
            (Lit CHR ''i'', Once), (AnyChar, Once)] (location w)) [paris] = Some paris"
    by (simp add: match_atom_def paris_def)
  have e1: "createWidget ''w2'' 2000 [paris] (JString ''Pari.'') =
     Some (\<lparr>code = 409, payload = WidgetAlreadyExists ''Pari.''\<rparr>, [paris])"
    by (subst createWidget_string [where p = "[(Lit CHR ''P'', Once), (Lit CHR ''a'', Once),
          (Lit CHR ''r'', Once), (Lit CHR ''i'', Once), (AnyChar, Once)]"])
       (simp_all only: tr pp f1 option.case, simp_all)
  have e2: "toLowerCase ''Pari.'' \<noteq> toLowerCase (location paris)"
    by (simp add: toLowerCase_def lower_char_def paris_def)
  have f3: "find (\<lambda>w. matches [(Lit CHR ''a'', Plus), (Lit CHR ''b'', Once)] (location w)) [a_plus_b] =
      None"
    by (simp add: match_atom_def lower_char_def a_plus_b_def)
  have v3: "schema_validate ''a+b'' = None"
    by (simp add: schema_validate_def)
  have e3: "createWidget ''w2'' 2000 [a_plus_b] (JString ''a+b'') =
     Some (\<lparr>code = 201,
            payload = Saved \<lparr>widget_id = ''w2'', location = ''a+b'', createdAt = 2000,
                             updatedAt = 2000\<rparr>\<rparr>,
           [a_plus_b, \<lparr>widget_id = ''w2'', location = ''a+b'', createdAt = 2000, updatedAt = 2000\<rparr>])"
    by (subst createWidget_string [where p = "[(Lit CHR ''a'', Plus), (Lit CHR ''b'', Once)]"])
       (simp_all only: tr pq f3 v3 option.case, simp_all)
  show ?thesis
  proof (intro conjI allI impI)
    fix s p
    assume "trim s \<noteq> [] \<and> parse_pattern (trim s) = Some p"
    then show "\<exists>r. createWidget newId now store (JString s) = Some r \<and>
        (code (fst r) = 409 \<longleftrightarrow> (\<exists>w \<in> set store. matches p (location w)))"
      by (rule general)
  qed (rule e1 e2 pq m2 e3)+
qed

theorem duplicate_check_is_regex_match_witness:
  "trim ''Pari.'' \<noteq> [] \<and>
   parse_pattern (trim ''Pari.'') =
     Some [(Lit CHR ''P'', Once), (Lit CHR ''a'', Once), (Lit CHR ''r'', Once),
           (Lit CHR ''i'', Once), (AnyChar, Once)] \<and>
   (\<exists>r. createWidget ''w2'' 2000 [paris] (JString ''Pari.'') = Some r \<and> code (fst r) = 409)"
proof -
  let ?p = "[(Lit CHR ''P'', Once), (Lit CHR ''a'', Once), (Lit CHR ''r'', Once),
            (Lit CHR ''i'', Once), (AnyChar, Once)]"
  have tr: "trim ''Pari.'' = ''Pari.''"
    by (simp add: trim_def isWhiteSpace_def)
  have pp: "parse_pattern (trim ''Pari.'') = Some ?p"
    unfolding tr by (simp add: quantifier_chars_def other_syntax_chars_def atom_of_def)
  have m: "\<exists>w \<in> set [paris]. matches ?p (location w)"
    by (simp add: match_atom_def paris_def)
  have prem: "trim ''Pari.'' \<noteq> [] \<and> parse_pattern (trim ''Pari.'') = Some ?p"
    using pp by (simp add: tr)
  from duplicate_check_is_regex_match [of "''w2''" 2000 "[paris]", THEN conjunct1, rule_format, OF prem]
  obtain r where r: "createWidget ''w2'' 2000 [paris] (JString ''Pari.'') = Some r"
    and iff: "code (fst r) = 409 \<longleftrightarrow> (\<exists>w \<in> set [paris]. matches ?p (location w))"
    by blast
  from iff m have "code (fst r) = 409"
    by (simp only:)
  with r have "\<exists>r. createWidget ''w2'' 2000 [paris] (JString ''Pari.'') = Some r \<and> code (fst r) = 409"
    by blast
  with prem show ?thesis
    by (intro conjI) (rule conjunct1 [OF prem], rule conjunct2 [OF prem], assumption)
qed

end
